theory Spec2Isabelle
  imports Main "HOL-Library.Char_ord" "HOL-Library.List_Lexorder" "HOL-Library.AList"
begin

section \<open>Python strings (byte strings of Python 2)\<close>

text \<open>
  The source is Python 2 (\<^verbatim>\<open>basestring\<close>, \<^verbatim>\<open>types.ClassType\<close>): a \<^verbatim>\<open>str\<close> is a byte
  string, modelled as \<^typ>\<open>string\<close>. The string methods the source calls are written
  out below.
\<close>

definition py_isspace :: "char \<Rightarrow> bool" where
  \<comment> \<open>the characters \<^verbatim>\<open>str.strip()\<close> removes and \<^verbatim>\<open>\s\<close> matches\<close>
  "py_isspace c = (c \<in> set [CHR 0x20, CHR 0x09, CHR 0x0A, CHR 0x0D, CHR 0x0B, CHR 0x0C])"

definition py_strip :: "string \<Rightarrow> string" where
  "py_strip s = rev (dropWhile py_isspace (rev (dropWhile py_isspace s)))"

definition py_lower_char :: "char \<Rightarrow> char" where
  "py_lower_char c =
     (let n = (of_char c :: nat) in if 65 \<le> n \<and> n \<le> 90 then char_of (n + 32) else c)"

definition py_lower :: "string \<Rightarrow> string" where
  "py_lower s = map py_lower_char s"

definition py_remove_char :: "char \<Rightarrow> string \<Rightarrow> string" where
  \<comment> \<open>\<^verbatim>\<open>s.replace(c, "")\<close>\<close>
  "py_remove_char c s = filter (\<lambda>x. x \<noteq> c) s"

definition py_replace_char :: "char \<Rightarrow> char \<Rightarrow> string \<Rightarrow> string" where
  \<comment> \<open>\<^verbatim>\<open>s.replace(c, d)\<close> for one-character strings\<close>
  "py_replace_char c d s = map (\<lambda>x. if x = c then d else x) s"

definition py_startswith :: "string \<Rightarrow> string \<Rightarrow> bool" where
  \<comment> \<open>\<^verbatim>\<open>s.startswith(p)\<close>\<close>
  "py_startswith s p = (take (length p) s = p)"

definition py_endswith :: "string \<Rightarrow> string \<Rightarrow> bool" where
  "py_endswith s p = (length p \<le> length s \<and> drop (length s - length p) s = p)"

definition py_partition :: "char \<Rightarrow> string \<Rightarrow> string \<times> string \<times> string" where
  \<comment> \<open>\<^verbatim>\<open>s.partition(c)\<close>: head, separator (empty when absent), tail\<close>
  "py_partition c s =
     (if c \<in> set s
      then (takeWhile (\<lambda>x. x \<noteq> c) s, [c], drop 1 (dropWhile (\<lambda>x. x \<noteq> c) s))
      else (s, [], []))"

fun py_join :: "string \<Rightarrow> string list \<Rightarrow> string" where
  "py_join sep [] = []"
| "py_join sep [x] = x"
| "py_join sep (x # y # ys) = x @ sep @ py_join sep (y # ys)"

fun string_of_nat :: "nat \<Rightarrow> string" where
  "string_of_nat n =
     (if n < 10 then [char_of (48 + n)]
      else string_of_nat (n div 10) @ [char_of (48 + n mod 10)])"

definition string_of_int :: "int \<Rightarrow> string" where
  \<comment> \<open>\<^verbatim>\<open>"%d" % i\<close>\<close>
  "string_of_int i = (if i < 0 then CHR ''-'' # string_of_nat (nat (- i)) else string_of_nat (nat i))"

section \<open>Values, exceptions and the process state\<close>

text \<open>
  Python values as far as the argument-interpretation core looks at them: \<^verbatim>\<open>None\<close>,
  strings, integers, binary floats (\<open>PyFloat m e\<close> is \<open>m * 2 ^ e\<close>), and any other
  object, of which only the name of its type and an identity are kept.
\<close>

datatype pyval = PyNone | PyStr string | PyInt int | PyFloat int int | PyObj string nat

fun type_name :: "pyval \<Rightarrow> string" where
  \<comment> \<open>\<^verbatim>\<open>type(v).__name__\<close>\<close>
  "type_name PyNone = ''NoneType''"
| "type_name (PyStr s) = ''str''"
| "type_name (PyInt i) = ''int''"
| "type_name (PyFloat m e) = ''float''"
| "type_name (PyObj tn i) = tn"

text \<open>
  Exceptions are values. \<open>OtherException\<close> is any further subclass of \<^verbatim>\<open>Exception\<close>
  that evaluated user code raises (type name, message), \<open>OtherBaseException\<close> one that
  \<^verbatim>\<open>except Exception\<close> does not catch (\<^verbatim>\<open>KeyboardInterrupt\<close>).
\<close>

datatype exn =
    TypeError string
  | SyntaxError string
  | ValueError string
  | AssertionError string
  | NotImplementedError string
  | UnimportableNameError string
  | ParseError string
  | ParseInterruptedWantHelp
  | ParseInterruptedWantSource
  | NotAFunctionError pyval
  | SystemExit pyval
  | OtherException string string
  | OtherBaseException string string

fun is_Exception :: "exn \<Rightarrow> bool" where
  \<comment> \<open>what \<^verbatim>\<open>except Exception\<close> catches\<close>
  "is_Exception (SystemExit v) = False"
| "is_Exception (OtherBaseException tn m) = False"
| "is_Exception e = True"

fun is_UnimportableNameError :: "exn \<Rightarrow> bool" where
  \<comment> \<open>what \<^verbatim>\<open>except UnimportableNameError\<close> catches\<close>
  "is_UnimportableNameError (UnimportableNameError m) = True"
| "is_UnimportableNameError e = False"

text \<open>
  \<^verbatim>\<open>LoggedList\<close>: the items, and beside them the list in which an accessed position
  holds the sentinel \<^verbatim>\<open>_ACCESSED\<close> (\<open>None\<close>).
\<close>

record logged_list =
  ll_items :: "pyval list"
  ll_unaccessed :: "pyval option list"

text \<open>
  \<^verbatim>\<open>sys.argv\<close> is a plain list or a reference to a \<^verbatim>\<open>LoggedList\<close> object in the
  store: the context manager keeps its own reference to the object it has created,
  whatever the managed body assigns to \<^verbatim>\<open>sys.argv\<close>.
\<close>

datatype argv_val = PyList "pyval list" | LoggedRef nat

datatype err_out = LogError string | LogInfo string | StderrWrite string

record 'ns world =
  namespace :: 'ns
  stdin :: string
  stdout :: "string list"
  stderr :: "err_out list"
  info_enabled :: bool
  sys_argv :: argv_val
  heap :: "nat \<Rightarrow> logged_list"
  heap_next :: nat

type_synonym ('a, 'ns) res = "(exn + 'a) \<times> 'ns world"

definition py_print :: "string \<Rightarrow> 'ns world \<Rightarrow> 'ns world" where
  \<comment> \<open>\<^verbatim>\<open>print(s)\<close>\<close>
  "py_print s w = w\<lparr>stdout := stdout w @ [s]\<rparr>"

definition logger_error :: "string \<Rightarrow> 'ns world \<Rightarrow> 'ns world" where
  "logger_error s w = w\<lparr>stderr := stderr w @ [LogError s]\<rparr>"

definition logger_info :: "string \<Rightarrow> 'ns world \<Rightarrow> 'ns world" where
  "logger_info s w = w\<lparr>stderr := stderr w @ [LogInfo s]\<rparr>"

definition stderr_write :: "string \<Rightarrow> 'ns world \<Rightarrow> 'ns world" where
  "stderr_write s w = w\<lparr>stderr := stderr w @ [StderrWrite s]\<rparr>"

text \<open>\<^verbatim>\<open>inspect.ArgSpec\<close>: \<open>varargs\<close> and \<open>keywords_name\<close> (the field \<^verbatim>\<open>keywords\<close>) are a name or
  \<^verbatim>\<open>None\<close>, \<open>defaults\<close> a tuple or \<^verbatim>\<open>None\<close>.\<close>

record argspec =
  args :: "string list"
  varargs :: "string option"
  keywords_name :: "string option"
  defaults :: "pyval list option"

text \<open>
  What the core calls and does not define: the built-in renderings of a value, the
  attribute lookup of an object, the source parser (\<^verbatim>\<open>PythonBlock\<close>), the identifier
  test, the auto-importer and evaluator of \<^verbatim>\<open>pyflyby._autoimp\<close>, the file-name
  tests of \<^verbatim>\<open>pyflyby._file\<close>, and what rests on \<^verbatim>\<open>inspect\<close>: the signature of a
  callable, its call, and the help and call texts built from it. They are parameters
  of the model, collected in one record; evaluated user code may have any effect on
  the process state.
\<close>

record 'ns collab =
  py_str :: "pyval \<Rightarrow> string"
  py_repr :: "pyval \<Rightarrow> string"
  pformat :: "pyval \<Rightarrow> string"
  get_idisp :: "pyval \<Rightarrow> ('ns world \<Rightarrow> (pyval, 'ns) res) option"
  parsable_as_expression :: "string \<Rightarrow> bool"
  parsable :: "string \<Rightarrow> bool"
  is_identifier :: "string \<Rightarrow> bool"
  auto_import :: "string \<Rightarrow> 'ns world \<Rightarrow> bool \<times> 'ns world"
  find_missing_imports :: "string \<Rightarrow> 'ns world \<Rightarrow> string list"
  auto_eval :: "string \<Rightarrow> string option \<Rightarrow> 'ns world \<Rightarrow> (pyval, 'ns) res"
  is_callable :: "pyval \<Rightarrow> bool"
  name_of_function :: "pyval \<Rightarrow> exn + string"
  get_argspec :: "pyval \<Rightarrow> exn + argspec"
  call_function :: "pyval \<Rightarrow> pyval list \<Rightarrow> (string \<times> pyval) list \<Rightarrow> 'ns world \<Rightarrow> (pyval, 'ns) res"
  get_help :: "pyval \<Rightarrow> string \<Rightarrow> nat \<Rightarrow> string"
  format_call :: "string \<Rightarrow> argspec \<Rightarrow> pyval list \<Rightarrow> (string \<times> pyval) list \<Rightarrow> string"
  stdin_isatty :: bool
  safe_filename :: "string \<Rightarrow> bool"
  filename_ext :: "string \<Rightarrow> string"
  file_exists :: "string \<Rightarrow> bool"

section \<open>The mode resolvers\<close>

definition interpret_arg_mode :: "'ns collab \<Rightarrow> string option \<Rightarrow> string \<Rightarrow> exn + string" where
  "interpret_arg_mode c arg0 dflt =
     (let arg = (case arg0 of None \<Rightarrow> dflt | Some a \<Rightarrow> a);
          rarg = py_lower (py_strip arg)
      in if rarg \<in> set [''eval'', ''evaluate'', ''exprs'', ''expr'', ''expressions'',
                         ''expression'', ''e''] then Inr ''eval''
         else if rarg \<in> set [''strings'', ''string'', ''str'', ''strs'', ''literal'',
                              ''literals'', ''s''] then Inr ''string''
         else if rarg \<in> set [''auto'', ''automatic'', ''a''] then Inr ''auto''
         else if rarg = ''error'' then Inr ''error''
         else Inl (ValueError (''Invalid arg_mode='' @ py_repr c (PyStr arg)
                                 @ ''; expected one of eval/string/auto'')))"

definition interpret_output_mode :: "'ns collab \<Rightarrow> string option \<Rightarrow> string \<Rightarrow> exn + string" where
  "interpret_output_mode c arg0 dflt =
     (let arg = (case arg0 of None \<Rightarrow> dflt | Some a \<Rightarrow> a);
          rarg = py_remove_char CHR ''_'' (py_remove_char CHR ''-'' (py_lower (py_strip arg)))
      in if rarg \<in> set [''none'', ''no'', ''n'', ''silent''] then Inr ''silent''
         else if rarg \<in> set [''interactive'', ''i''] then Inr ''interactive''
         else if rarg \<in> set [''print'', ''p'', ''string'', ''str''] then Inr ''str''
         else if rarg \<in> set [''repr'', ''r''] then Inr ''repr''
         else if rarg \<in> set [''pprint'', ''pp''] then Inr ''pprint''
         else if rarg \<in> set [''reprifnotnone'', ''reprunlessnone'', ''rn'']
           then Inr ''repr-if-not-none''
         else if rarg \<in> set [''pprintifnotnone'', ''pprintunlessnone'', ''ppn'']
           then Inr ''pprint-if-not-none''
         else if rarg \<in> set [''systemexit'', ''exit'', ''raise''] then Inr ''exit''
         else Inl (ValueError (''Invalid output='' @ py_repr c (PyStr arg)
              @ ''; expected one of ''
              @ ''silent/interactive/str/repr/pprint/repr-if-not-none/pprint-if-not-none/exit'')))"

section \<open>The result printer\<close>

definition print_result :: "'ns collab \<Rightarrow> pyval \<Rightarrow> string option \<Rightarrow> 'ns world \<Rightarrow> (unit, 'ns) res" where
  "print_result c result0 output_mode0 w0 =
     (case interpret_output_mode c output_mode0 ''interactive'' of
        Inl e \<Rightarrow> (Inl e, w0)
      | Inr output_mode1 \<Rightarrow>
          if output_mode1 = ''silent'' then (Inr (), w0)
          else
            (case (if output_mode1 = ''interactive'' then
                     (case get_idisp c result0 of
                        None \<Rightarrow> (Inr (result0, ''pprint-if-not-none''), w0)
                      | Some idisp \<Rightarrow>
                          (case idisp w0 of
                             (Inl e, w1) \<Rightarrow> (Inl e, w1)
                           | (Inr r, w1) \<Rightarrow> (Inr (r, ''result-if-not-none''), w1)))
                   else (Inr (result0, output_mode1), w0)) of
               (Inl e, w1) \<Rightarrow> (Inl e, w1)
             | (Inr (result, output_mode), w1) \<Rightarrow>
                 if output_mode = ''str'' then (Inr (), py_print (py_str c result) w1)
                 else if output_mode = ''repr'' then (Inr (), py_print (py_repr c result) w1)
                 else if output_mode = ''pprint'' then (Inr (), py_print (pformat c result) w1)
                 else if output_mode = ''repr-if-not-none'' then
                   (if result \<noteq> PyNone then (Inr (), py_print (py_repr c result) w1)
                    else (Inr (), w1))
                 else if output_mode = ''pprint-if-not-none'' then
                   (if result \<noteq> PyNone then (Inr (), py_print (pformat c result) w1)
                    else (Inr (), w1))
                 else if output_mode = ''exit'' then (Inl (SystemExit result), w1)
                 else (Inl (AssertionError (''unexpected output_mode=''
                              @ py_repr c (PyStr output_mode))), w1)))"


section \<open>The value-or-string parser\<close>

fun exn_type_name :: "exn \<Rightarrow> string" where
  \<comment> \<open>\<^verbatim>\<open>type(e).__name__\<close>\<close>
  "exn_type_name (TypeError m) = ''TypeError''"
| "exn_type_name (SyntaxError m) = ''SyntaxError''"
| "exn_type_name (ValueError m) = ''ValueError''"
| "exn_type_name (AssertionError m) = ''AssertionError''"
| "exn_type_name (NotImplementedError m) = ''NotImplementedError''"
| "exn_type_name (UnimportableNameError m) = ''UnimportableNameError''"
| "exn_type_name (ParseError m) = ''ParseError''"
| "exn_type_name ParseInterruptedWantHelp = ''_ParseInterruptedWantHelp''"
| "exn_type_name ParseInterruptedWantSource = ''_ParseInterruptedWantSource''"
| "exn_type_name (NotAFunctionError v) = ''NotAFunctionError''"
| "exn_type_name (SystemExit v) = ''SystemExit''"
| "exn_type_name (OtherException tn m) = tn"
| "exn_type_name (OtherBaseException tn m) = tn"

fun exn_str :: "'ns collab \<Rightarrow> exn \<Rightarrow> string" where
  \<comment> \<open>\<^verbatim>\<open>str(e)\<close>\<close>
  "exn_str c (TypeError m) = m"
| "exn_str c (SyntaxError m) = m"
| "exn_str c (ValueError m) = m"
| "exn_str c (AssertionError m) = m"
| "exn_str c (NotImplementedError m) = m"
| "exn_str c (UnimportableNameError m) = m"
| "exn_str c (ParseError m) = m"
| "exn_str c ParseInterruptedWantHelp = []"
| "exn_str c ParseInterruptedWantSource = []"
| "exn_str c (NotAFunctionError v) =
     ''('' @ py_repr c (PyStr ''Not a function'') @ '', '' @ py_repr c v @ '')''"
| "exn_str c (SystemExit v) = py_str c v"
| "exn_str c (OtherException tn m) = m"
| "exn_str c (OtherBaseException tn m) = m"

definition Namespace_auto_eval ::
  "'ns collab \<Rightarrow> string \<Rightarrow> string option \<Rightarrow> bool \<Rightarrow> 'ns world \<Rightarrow> (pyval, 'ns) res" where
  \<comment> \<open>\<^verbatim>\<open>_Namespace.auto_eval(block, mode, info)\<close>\<close>
  "Namespace_auto_eval c block mode info w =
     (case auto_import c block w of
        (imported, w1) \<Rightarrow>
          if \<not> imported then
            (let missing = find_missing_imports c block w1;
                 mstr = py_join '', '' (map (\<lambda>m. py_repr c (PyStr m)) missing)
             in if length missing = 1 then
                  (Inl (UnimportableNameError
                     (''name '' @ mstr @ '' is not defined and not importable'')), w1)
                else if length missing > 1 then
                  (Inl (UnimportableNameError
                     (''names '' @ mstr @ '' are not defined and not importable'')), w1)
                else (Inl (AssertionError []), w1))
          else auto_eval c block mode (if info then logger_info block w1 else w1))"

definition parse_value_or_string ::
  "'ns collab \<Rightarrow> pyval \<Rightarrow> string \<Rightarrow> 'ns world \<Rightarrow> (pyval, 'ns) res" where
  "parse_value_or_string c arg arg_mode w =
     (case arg of
        PyStr s \<Rightarrow>
          if arg_mode = ''string'' then (Inr arg, w)
          else if arg_mode = ''eval'' then
            (if parsable_as_expression c s then Namespace_auto_eval c s None False w
             else (Inl (SyntaxError (''syntax error: '' @ s)), w))
          else if arg_mode = ''auto'' then
            (if parsable_as_expression c s then
               (case Namespace_auto_eval c s None False w of
                  (Inl e, w1) \<Rightarrow>
                    if is_UnimportableNameError e then (Inr arg, w1) else (Inl e, w1)
                | (Inr v, w1) \<Rightarrow> (Inr v, w1))
             else (Inr arg, w))
          else if arg_mode = ''error'' then
            (Inl (ValueError (''Expected no arguments; got '' @ py_repr c arg)), w)
          else (Inl (ValueError (''_parse_value_or_string(): invalid arg_mode=''
                       @ py_repr c (PyStr arg_mode))), w)
      | _ \<Rightarrow> (Inl (TypeError (''_parse_value_or_string(): expected str instead of ''
                       @ type_name arg)), w))"

section \<open>The signature-driven argument binder\<close>

definition truthy_name :: "string option \<Rightarrow> bool" where
  \<comment> \<open>the truth value of a name or \<^verbatim>\<open>None\<close>\<close>
  "truthy_name n = (case n of None \<Rightarrow> False | Some s \<Rightarrow> s \<noteq> [])"

definition defaults_or_empty :: "argspec \<Rightarrow> pyval list" where
  \<comment> \<open>\<^verbatim>\<open>argspec.defaults or ()\<close>\<close>
  "defaults_or_empty argspec = (case defaults argspec of None \<Rightarrow> [] | Some ds \<Rightarrow> ds)"

definition py_slice_from :: "'a list \<Rightarrow> int \<Rightarrow> 'a list" where
  \<comment> \<open>\<^verbatim>\<open>xs[i:]\<close>: a negative start counts from the end\<close>
  "py_slice_from xs i =
     (if i < 0 then drop (nat (int (length xs) + i)) xs else drop (nat i) xs)"

definition argname2default_of :: "argspec \<Rightarrow> (string \<rightharpoonup> pyval)" where
  "argname2default_of argspec =
     (let ds = defaults_or_empty argspec
      in fold (\<lambda>(argname, d) m. m(argname \<mapsto> d))
           (zip (py_slice_from (args argspec) (int (length (args argspec)) - int (length ds))) ds)
           Map.empty)"

definition prefixes :: "string \<Rightarrow> string list" where
  \<comment> \<open>Modelled from the spec: \<^verbatim>\<open>pyflyby._util.prefixes\<close> is not in the source given;
      every non-empty prefix of the name, shortest first.\<close>
  "prefixes s = map (\<lambda>n. take n s) [1..<Suc (length s)]"

definition setdefault_append :: "('k \<rightharpoonup> 'v list) \<Rightarrow> 'k \<Rightarrow> 'v \<Rightarrow> ('k \<rightharpoonup> 'v list)" where
  \<comment> \<open>\<^verbatim>\<open>d.setdefault(k, []).append(v)\<close>\<close>
  "setdefault_append d k v = d(k \<mapsto> (case d k of None \<Rightarrow> [] | Some vs \<Rightarrow> vs) @ [v])"

definition prefix2argname_of :: "argspec \<Rightarrow> (string \<rightharpoonup> string list)" where
  "prefix2argname_of argspec =
     fold (\<lambda>argname d. fold (\<lambda>prefix d'. setdefault_append d' prefix argname) (prefixes argname) d)
       (args argspec) Map.empty"

definition match_argname ::
  "argspec \<Rightarrow> (string \<rightharpoonup> string list) \<Rightarrow> string \<Rightarrow> string \<Rightarrow> exn + string" where
  \<comment> \<open>the resolution of an option name in the scanning loop: the parameter it stands for,
      or the name itself when the callable takes arbitrary keywords\<close>
  "match_argname argspec prefix2argname argname equalsign =
     (let matched_argnames = (case prefix2argname argname of None \<Rightarrow> [] | Some ns \<Rightarrow> ns)
      in if length matched_argnames = 1 then Inr (hd matched_argnames)
         else if length matched_argnames = 0 then
           (if equalsign = [] \<and> argname \<in> set [''help'', ''h''] then Inl ParseInterruptedWantHelp
            else if equalsign = [] \<and> argname \<in> set [''source''] then Inl ParseInterruptedWantSource
            else if \<not> truthy_name (keywords_name argspec) then
              Inl (ParseError (''Unknown option name '' @ argname))
            else Inr argname)
         else Inl (ParseError (''Ambiguous '' @ argname @ '': could mean one of: ''
                     @ py_join '', '' (map (\<lambda>s. ''--'' @ s) matched_argnames))))"

definition option_body :: "string \<Rightarrow> string" where
  \<comment> \<open>an option token without its two leading dashes, or else without its first\<close>
  "option_body arg = (if py_startswith arg ''--'' then drop 2 arg else drop 1 arg)"

fun scan_args ::
  "'ns collab \<Rightarrow> argspec \<Rightarrow> string \<Rightarrow> string list \<Rightarrow> string list \<Rightarrow> (string \<times> string) list
     \<Rightarrow> 'ns world \<Rightarrow> (string list \<times> (string \<times> string) list, 'ns) res" where
  \<comment> \<open>the \<^verbatim>\<open>while args:\<close> loop; \<open>got_keyword_args\<close> is the dictionary as an association list\<close>
  "scan_args c argspec arg_mode [] got_pos_args got_keyword_args w =
     (Inr (got_pos_args, got_keyword_args), w)"
| "scan_args c argspec arg_mode (arg # rest) got_pos_args got_keyword_args w =
     (if arg \<in> set [''--?'', ''-?'', ''?''] then (Inl ParseInterruptedWantHelp, w)
      else if arg \<in> set [''--??'', ''-??'', ''??''] then (Inl ParseInterruptedWantSource, w)
      else if py_startswith arg ''-'' then
        (if arg = ''-'' then
           scan_args c argspec arg_mode rest
             (got_pos_args @ [if arg_mode \<noteq> ''string'' then py_repr c (PyStr (stdin w)) else stdin w])
             got_keyword_args (w\<lparr>stdin := []\<rparr>)
         else if arg = ''--'' then
           (Inr (got_pos_args @ (if arg_mode = ''string'' then rest
                                  else map (\<lambda>x. py_repr c (PyStr x)) rest),
                 got_keyword_args), w)
         else
           (case py_partition CHR ''='' (option_body arg) of
              (argname0, equalsign, val) \<Rightarrow>
                (let argname = py_replace_char CHR ''-'' CHR ''_'' argname0
                 in if \<not> is_identifier c argname then
                      (Inl (ParseError (''Invalid option name '' @ argname)), w)
                    else
                      (case match_argname argspec (prefix2argname_of argspec) argname equalsign of
                         Inl e \<Rightarrow> (Inl e, w)
                       | Inr argname' \<Rightarrow>
                           if val = [] then
                             (case rest of
                                [] \<Rightarrow> (Inl (ParseError (''Missing argument to '' @ arg)), w)
                              | val' # rest' \<Rightarrow>
                                  if py_startswith val' ''--'' then
                                    (Inl (ParseError (''Missing argument to '' @ arg @ ''.  ''
                                       @ ''If you really want to use '' @ py_repr c (PyStr val')
                                       @ '' as the argument to '' @ arg @ '', ''
                                       @ ''then use '' @ arg @ ''='' @ val' @ ''.'')), w)
                                  else scan_args c argspec arg_mode rest' got_pos_args
                                         (AList.update argname' val' got_keyword_args) w)
                           else scan_args c argspec arg_mode rest got_pos_args
                                  (AList.update argname' val got_keyword_args) w))))
      else scan_args c argspec arg_mode rest (got_pos_args @ [arg]) got_keyword_args w)"


fun bind_declared ::
  "'ns collab \<Rightarrow> string \<Rightarrow> (string \<rightharpoonup> pyval) \<Rightarrow> string list \<Rightarrow> nat \<Rightarrow> string list
     \<Rightarrow> (string \<times> string) list \<Rightarrow> pyval list \<Rightarrow> 'ns world
     \<Rightarrow> (pyval list \<times> (string \<times> string) list, 'ns) res" where
  \<comment> \<open>\<^verbatim>\<open>for i, argname in enumerate(argspec.args):\<close> from index \<open>i\<close> on\<close>
  "bind_declared c arg_mode argname2default got_pos_args i [] got_keyword_args parsed_args w =
     (Inr (parsed_args, got_keyword_args), w)"
| "bind_declared c arg_mode argname2default got_pos_args i (argname # rest) got_keyword_args parsed_args w =
     (if i < length got_pos_args then
        (case map_of got_keyword_args argname of
           Some kwval \<Rightarrow>
             (Inl (ParseError (argname @ '' specified both as positional argument (''
                     @ got_pos_args ! i @ '') and keyword argument ('' @ kwval @ '')'')), w)
         | None \<Rightarrow>
             (case parse_value_or_string c (PyStr (got_pos_args ! i)) arg_mode w of
                (Inl e, w1) \<Rightarrow> (Inl e, w1)
              | (Inr parsed_value, w1) \<Rightarrow>
                  bind_declared c arg_mode argname2default got_pos_args (Suc i) rest
                    got_keyword_args (parsed_args @ [parsed_value]) w1))
      else
        (case map_of got_keyword_args argname of
           None \<Rightarrow>
             (case argname2default argname of
                None \<Rightarrow> (Inl (ParseError (''missing required argument '' @ argname)), w)
              | Some parsed_value \<Rightarrow>
                  bind_declared c arg_mode argname2default got_pos_args (Suc i) rest
                    got_keyword_args (parsed_args @ [parsed_value]) w)
         | Some unparsed_value \<Rightarrow>
             (case parse_value_or_string c (PyStr unparsed_value) arg_mode w of
                (Inl e, w1) \<Rightarrow> (Inl e, w1)
              | (Inr parsed_value, w1) \<Rightarrow>
                  bind_declared c arg_mode argname2default got_pos_args (Suc i) rest
                    (AList.delete argname got_keyword_args) (parsed_args @ [parsed_value]) w1)))"

fun parse_values ::
  "'ns collab \<Rightarrow> string \<Rightarrow> string list \<Rightarrow> pyval list \<Rightarrow> 'ns world \<Rightarrow> (pyval list, 'ns) res" where
  \<comment> \<open>\<^verbatim>\<open>_parse_value_or_string\<close> on each token in turn, the results appended\<close>
  "parse_values c arg_mode [] parsed w = (Inr parsed, w)"
| "parse_values c arg_mode (unparsed_value # rest) parsed w =
     (case parse_value_or_string c (PyStr unparsed_value) arg_mode w of
        (Inl e, w1) \<Rightarrow> (Inl e, w1)
      | (Inr v, w1) \<Rightarrow> parse_values c arg_mode rest (parsed @ [v]) w1)"

fun parse_kwargs ::
  "'ns collab \<Rightarrow> string \<Rightarrow> (string \<times> string) list \<Rightarrow> (string \<times> pyval) list \<Rightarrow> 'ns world
     \<Rightarrow> ((string \<times> pyval) list, 'ns) res" where
  \<comment> \<open>the loop over the sorted remaining keyword arguments\<close>
  "parse_kwargs c arg_mode [] parsed_kwargs w = (Inr parsed_kwargs, w)"
| "parse_kwargs c arg_mode ((argname, unparsed_value) # rest) parsed_kwargs w =
     (case parse_value_or_string c (PyStr unparsed_value) arg_mode w of
        (Inl e, w1) \<Rightarrow>
          if is_Exception e then
            (Inl (ParseError (''Error parsing value for --'' @ argname @ ''='' @ unparsed_value
                    @ '': '' @ exn_type_name e @ '': '' @ exn_str c e)), w1)
          else (Inl e, w1)
      | (Inr v, w1) \<Rightarrow>
          parse_kwargs c arg_mode rest (AList.update argname v parsed_kwargs) w1)"

definition too_many_message :: "argspec \<Rightarrow> string list \<Rightarrow> string" where
  "too_many_message argspec got_pos_args =
     (let max_nargs = length (args argspec);
          expected =
            (if defaults_or_empty argspec \<noteq> [] then
               string_of_int (int max_nargs - int (length (defaults_or_empty argspec)))
                 @ ''-'' @ string_of_nat max_nargs
             else string_of_nat max_nargs)
      in ''Too many positional arguments.  Expected '' @ expected
           @ '' positional argument(s): '' @ py_join '', '' (args argspec)
           @ ''.  Got '' @ string_of_nat (length got_pos_args) @ '' args: ''
           @ py_join '' '' got_pos_args)"

definition parse_auto_apply_args ::
  "'ns collab \<Rightarrow> argspec \<Rightarrow> string list \<Rightarrow> string \<Rightarrow> 'ns world
     \<Rightarrow> (pyval list \<times> (string \<times> pyval) list, 'ns) res" where
  "parse_auto_apply_args c argspec commandline_args arg_mode w =
     (case scan_args c argspec arg_mode commandline_args [] [] w of
        (Inl e, w1) \<Rightarrow> (Inl e, w1)
      | (Inr (got_pos_args, got_keyword_args), w1) \<Rightarrow>
          (case bind_declared c arg_mode (argname2default_of argspec) got_pos_args 0
                  (args argspec) got_keyword_args [] w1 of
             (Inl e, w2) \<Rightarrow> (Inl e, w2)
           | (Inr (parsed_args, got_keyword_args'), w2) \<Rightarrow>
               (case (if length got_pos_args > length (args argspec) then
                        (if truthy_name (varargs argspec) then
                           parse_values c arg_mode (drop (length (args argspec)) got_pos_args)
                             parsed_args w2
                         else (Inl (ParseError (too_many_message argspec got_pos_args)), w2))
                      else (Inr parsed_args, w2)) of
                  (Inl e, w3) \<Rightarrow> (Inl e, w3)
                | (Inr parsed_args', w3) \<Rightarrow>
                    (case parse_kwargs c arg_mode (sort_key fst got_keyword_args') [] w3 of
                       (Inl e, w4) \<Rightarrow> (Inl e, w4)
                     | (Inr parsed_kwargs, w4) \<Rightarrow> (Inr (parsed_args', parsed_kwargs), w4)))))"

section \<open>Applying a function to command-line arguments\<close>

definition interpret_function_name ::
  "'ns collab \<Rightarrow> pyval \<Rightarrow> string option \<Rightarrow> 'ns world \<Rightarrow> (pyval \<times> string, 'ns) res" where
  "interpret_function_name c function function_name w =
     (if is_callable c function then
        (case function_name of
           None \<Rightarrow>
             (case name_of_function c function of
                Inl e \<Rightarrow> (Inl e, w)
              | Inr n \<Rightarrow> (Inr (function, n), w))
         | Some n \<Rightarrow> (Inr (function, n), w))
      else
        (case function of
           PyStr fs \<Rightarrow>
             (let fs' = py_strip fs
              in if fs' = [] then (Inl (ValueError ''No function specified''), w)
                 else
                   (let function_name' =
                          (case function_name of None \<Rightarrow> fs' | Some n \<Rightarrow> py_strip n)
                    in case Namespace_auto_eval c fs' (Some ''eval'') False w of
                         (Inl e, w1) \<Rightarrow>
                           if is_Exception e then
                             (Inl (ValueError (''Invalid function '' @ fs' @ '': ''
                                     @ exn_type_name e @ '': '' @ exn_str c e)), w1)
                           else (Inl e, w1)
                       | (Inr f, w1) \<Rightarrow>
                           if \<not> is_callable c f then (Inl (NotAFunctionError f), w1)
                           else (Inr (f, function_name'), w1)))
         | _ \<Rightarrow> (Inl (TypeError (''Expected function or string; got a '' @ type_name function)), w)))"

definition auto_apply ::
  "'ns collab \<Rightarrow> pyval \<Rightarrow> string list \<Rightarrow> string option \<Rightarrow> string option \<Rightarrow> 'ns world
     \<Rightarrow> (pyval, 'ns) res" where
  "auto_apply c function0 commandline_args arg_mode0 function_name0 w =
     (case interpret_function_name c function0 function_name0 w of
        (Inl e, w1) \<Rightarrow> (Inl e, w1)
      | (Inr (function, function_name), w1) \<Rightarrow>
          (case interpret_arg_mode c arg_mode0 ''auto'' of
             Inl e \<Rightarrow> (Inl e, w1)
           | Inr arg_mode \<Rightarrow>
               (case get_argspec c function of
                  Inl e \<Rightarrow> (Inl e, w1)
                | Inr argspec \<Rightarrow>
                    (case parse_auto_apply_args c argspec commandline_args arg_mode w1 of
                       (Inl ParseInterruptedWantHelp, w2) \<Rightarrow>
                         (Inl (SystemExit (PyInt 0)),
                          py_print (get_help c function function_name 1) w2)
                     | (Inl ParseInterruptedWantSource, w2) \<Rightarrow>
                         (Inl (SystemExit (PyInt 0)),
                          py_print (get_help c function function_name 2) w2)
                     | (Inl (ParseError msg), w2) \<Rightarrow>
                         (Inl (SystemExit (PyInt 1)),
                          stderr_write
                            (CHR 0x0A # get_help c function function_name
                                          (if info_enabled w2 then 1 else 0))
                            (logger_error msg w2))
                     | (Inl e, w2) \<Rightarrow> (Inl e, w2)
                     | (Inr (parsed_args, parsed_kwargs), w2) \<Rightarrow>
                         call_function c function parsed_args parsed_kwargs
                           (logger_info
                              (format_call c function_name argspec parsed_args parsed_kwargs)
                              w2)))))"


section \<open>The argument vector in a scope\<close>

definition LoggedList_init :: "pyval list \<Rightarrow> logged_list" where
  "LoggedList_init items = \<lparr>ll_items = items, ll_unaccessed = map Some items\<rparr>"

definition LoggedList_getitem :: "logged_list \<Rightarrow> nat \<Rightarrow> exn + (pyval \<times> logged_list)" where
  \<comment> \<open>\<^verbatim>\<open>__getitem__\<close> at a non-negative index\<close>
  "LoggedList_getitem l idx =
     (if idx < length (ll_items l)
      then Inr (ll_items l ! idx, l\<lparr>ll_unaccessed := (ll_unaccessed l)[idx := None]\<rparr>)
      else Inl (OtherException ''IndexError'' ''list index out of range''))"

definition LoggedList_iter :: "logged_list \<Rightarrow> pyval list \<times> logged_list" where
  \<comment> \<open>\<^verbatim>\<open>list(l)\<close>: \<^verbatim>\<open>__iter__\<close> run to its end marks every position\<close>
  "LoggedList_iter l =
     (ll_items l,
      l\<lparr>ll_unaccessed := fold (\<lambda>i u. u[i := None]) [0..<length (ll_items l)] (ll_unaccessed l)\<rparr>)"

definition LoggedList_unaccessed :: "logged_list \<Rightarrow> pyval list" where
  "LoggedList_unaccessed l = List.map_filter (\<lambda>x. x) (ll_unaccessed l)"

fun strings_of_values :: "nat \<Rightarrow> pyval list \<Rightarrow> exn + string list" where
  \<comment> \<open>the check \<^verbatim>\<open>str.join\<close> makes of its items, from position \<open>i\<close> on\<close>
  "strings_of_values i [] = Inr []"
| "strings_of_values i (PyStr s # vs) =
     (case strings_of_values (Suc i) vs of Inl e \<Rightarrow> Inl e | Inr ss \<Rightarrow> Inr (s # ss))"
| "strings_of_values i (v # vs) =
     Inl (TypeError (''sequence item '' @ string_of_nat i @ '': expected string, ''
            @ type_name v @ '' found''))"

definition join_values :: "string \<Rightarrow> pyval list \<Rightarrow> exn + string" where
  \<comment> \<open>\<^verbatim>\<open>sep.join(vs)\<close> on a list of values\<close>
  "join_values sep vs =
     (case strings_of_values 0 vs of Inl e \<Rightarrow> Inl e | Inr ss \<Rightarrow> Inr (py_join sep ss))"

definition list_of_argv :: "'ns world \<Rightarrow> pyval list \<times> 'ns world" where
  \<comment> \<open>\<^verbatim>\<open>list(sys.argv)\<close>\<close>
  "list_of_argv w =
     (case sys_argv w of
        PyList xs \<Rightarrow> (xs, w)
      | LoggedRef r \<Rightarrow>
          (case LoggedList_iter (heap w r) of
             (xs, l) \<Rightarrow> (xs, w\<lparr>heap := (heap w)(r := l)\<rparr>)))"

definition unused_message :: "'ns collab \<Rightarrow> nat \<Rightarrow> pyval list \<Rightarrow> exn + string" where
  \<comment> \<open>the complaint of \<^verbatim>\<open>SysArgvCtx\<close> about a non-empty list of unaccessed arguments\<close>
  "unused_message c nargs unaccessed =
     (if nargs = 1 then
        Inr (''the command-line argument was not used: '' @ py_str c (hd unaccessed))
      else if length unaccessed = nargs then
        (case join_values '' '' unaccessed of
           Inl e \<Rightarrow> Inl e
         | Inr j \<Rightarrow> Inr (''all '' @ string_of_nat (length unaccessed)
                          @ '' command-line arguments were not used: '' @ j))
      else
        (case join_values '' '' unaccessed of
           Inl e \<Rightarrow> Inl e
         | Inr j \<Rightarrow> Inr (string_of_nat (length unaccessed) @ '' of '' @ string_of_nat nargs
                          @ '' command-line arguments were not used: '' @ j)))"

definition SysArgvCtx ::
  "'ns collab \<Rightarrow> pyval list \<Rightarrow> ('ns world \<Rightarrow> (unit, 'ns) res) \<Rightarrow> 'ns world \<Rightarrow> (unit, 'ns) res" where
  \<comment> \<open>\<^verbatim>\<open>with SysArgvCtx(*args): body\<close>; the last line is the \<^verbatim>\<open>finally\<close> clause\<close>
  "SysArgvCtx c args0 body w0 =
     (if args0 = [] then (Inl (ValueError ''Missing args''), w0)
      else
        (let nargs = length args0 - 1;
             argv = heap_next w0;
             w1 = w0\<lparr>heap := (heap w0)(argv := LoggedList_init args0), heap_next := Suc argv\<rparr>
         in case LoggedList_getitem (heap w1 argv) 0 of
              Inl e \<Rightarrow> (Inl e, w1)
            | Inr (first, l) \<Rightarrow>
                (case list_of_argv (w1\<lparr>heap := (heap w1)(argv := l)\<rparr>) of
                   (orig_argv, w2) \<Rightarrow>
                     (case (case body (w2\<lparr>sys_argv := LoggedRef argv\<rparr>) of
                              (Inl e, w3) \<Rightarrow> (Inl e, w3)
                            | (Inr u, w3) \<Rightarrow>
                                (let unaccessed = LoggedList_unaccessed (heap w3 argv)
                                 in if unaccessed = [] then (Inr (), w3)
                                    else
                                      (case unused_message c nargs unaccessed of
                                         Inl e \<Rightarrow> (Inl e, w3)
                                       | Inr msg \<Rightarrow>
                                           (Inl (SystemExit (PyInt 1)), logger_error msg w3)))) of
                        (r, w4) \<Rightarrow> (r, w4\<lparr>sys_argv := PyList orig_argv\<rparr>)))))"

definition seems_like_filename :: "'ns collab \<Rightarrow> string \<Rightarrow> bool" where
  "seems_like_filename c arg =
     (if \<not> safe_filename c arg then False
      else if filename_ext c arg = ''.py'' then True
      else if py_startswith arg ''/'' \<or> py_startswith arg ''./'' \<or> py_startswith arg ''../'' then True
      else if file_exists c arg then True
      else False)"

section \<open>The dispatcher\<close>

text \<open>The fields of \<^verbatim>\<open>_PyMain\<close> that the global options set and the actions read.\<close>

record pymain =
  pm_args :: "string list"
  pm_arg_mode :: "string option"
  pm_output_mode :: "string option"

definition PyMain_eval ::
  "'ns collab \<Rightarrow> pymain \<Rightarrow> string \<Rightarrow> string list \<Rightarrow> 'ns world \<Rightarrow> (unit, 'ns) res" where
  \<comment> \<open>\<^verbatim>\<open>_PyMain.eval(cmd, cmd_args)\<close>\<close>
  "PyMain_eval c pm cmd cmd_args w =
     (case interpret_arg_mode c (pm_arg_mode pm) ''string'' of
        Inl e \<Rightarrow> (Inl e, w)
      | Inr arg_mode \<Rightarrow>
          (case interpret_output_mode c (pm_output_mode pm) ''interactive'' of
             Inl e \<Rightarrow> (Inl e, w)
           | Inr output_mode \<Rightarrow>
               (case parse_values c arg_mode cmd_args [] w of
                  (Inl e, w1) \<Rightarrow> (Inl e, w1)
                | (Inr cmd_args', w1) \<Rightarrow>
                    SysArgvCtx c (PyStr ''-c'' # cmd_args')
                      (\<lambda>w2. case Namespace_auto_eval c cmd None True w2 of
                               (Inl e, w3) \<Rightarrow> (Inl e, w3)
                             | (Inr result, w3) \<Rightarrow> print_result c result (Some output_mode) w3)
                      w1)))"

definition PyMain_apply ::
  "'ns collab \<Rightarrow> pymain \<Rightarrow> string \<Rightarrow> string list \<Rightarrow> 'ns world \<Rightarrow> (unit, 'ns) res" where
  \<comment> \<open>\<^verbatim>\<open>_PyMain.apply(function_name, cmd_args)\<close>\<close>
  "PyMain_apply c pm function_name cmd_args w =
     (case interpret_arg_mode c (pm_arg_mode pm) ''auto'' of
        Inl e \<Rightarrow> (Inl e, w)
      | Inr arg_mode \<Rightarrow>
          (case interpret_output_mode c (pm_output_mode pm) ''interactive'' of
             Inl e \<Rightarrow> (Inl e, w)
           | Inr output_mode \<Rightarrow>
               (case auto_apply c (PyStr function_name) cmd_args (Some arg_mode) None w of
                  (Inl e, w1) \<Rightarrow> (Inl e, w1)
                | (Inr result, w1) \<Rightarrow> print_result c result (Some output_mode) w1)))"


text \<open>
  What \<^verbatim>\<open>_run_action\<close> hands control to: the method or collaborator called and its
  arguments. \<open>Syntax\<close> is \<^verbatim>\<open>pyflyby._cmdline.syntax\<close>, which reports and exits.
\<close>

datatype action =
    StartIPython "string list"
  | ExecStdin "string list"
  | DoEval string "string list"
  | DoExecfile string "string list"
  | DoApply string "string list"
  | DoRunModule string "string list"
  | RunIPythonLineMagic string
  | PrintVersion "string option"
  | PrintHelp "string option" nat
  | LoggerError string
  | Syntax "string option"
  | HeuristicCmd string "string list" string

definition py_isalpha_ascii :: "char \<Rightarrow> bool" where
  \<comment> \<open>the class \<^verbatim>\<open>[a-zA-Z]\<close>\<close>
  "py_isalpha_ascii c =
     (let n = (of_char c :: nat) in (65 \<le> n \<and> n \<le> 90) \<or> (97 \<le> n \<and> n \<le> 122))"

definition blank_or_option :: "string \<Rightarrow> bool" where
  \<comment> \<open>\<^verbatim>\<open>re.match("\s*$|-[a-zA-Z-]", a)\<close>\<close>
  "blank_or_option a =
     (list_all py_isspace a \<or>
      (case a of
         c1 # c2 # cs \<Rightarrow> c1 = CHR ''-'' \<and> (py_isalpha_ascii c2 \<or> c2 = CHR ''-'')
       | _ \<Rightarrow> False))"

definition popcmdarg :: "string \<Rightarrow> string \<Rightarrow> string \<Rightarrow> string list \<Rightarrow> exn + (string \<times> string list)" where
  "popcmdarg arg0 equalsign cmdarg args1 =
     (if equalsign \<noteq> [] then Inr (cmdarg, args1)
      else (case args1 of
              [] \<Rightarrow> Inl (ValueError (''expected argument to '' @ arg0))
            | a # rest \<Rightarrow> Inr (a, rest)))"

definition nocmdarg :: "string \<Rightarrow> string \<Rightarrow> exn + unit" where
  "nocmdarg arg0 equalsign =
     (if equalsign \<noteq> [] then Inl (ValueError (''unexpected argument '' @ arg0)) else Inr ())"

definition action_in :: "string option \<Rightarrow> string list \<Rightarrow> bool" where
  \<comment> \<open>\<^verbatim>\<open>action in [...]\<close>, where \<open>action\<close> may be \<^verbatim>\<open>None\<close>\<close>
  "action_in action names = (case action of None \<Rightarrow> False | Some a \<Rightarrow> a \<in> set names)"

definition with_cmdarg ::
  "pymain \<Rightarrow> string \<Rightarrow> string \<Rightarrow> string \<Rightarrow> string list \<Rightarrow> (string \<Rightarrow> string list \<Rightarrow> action list)
     \<Rightarrow> exn + (action list \<times> pymain)" where
  \<comment> \<open>\<^verbatim>\<open>cmd = popcmdarg()\<close>, then the handler on \<open>cmd\<close> and the remaining arguments\<close>
  "with_cmdarg pm arg0 equalsign cmdarg args1 handler =
     (case popcmdarg arg0 equalsign cmdarg args1 of
        Inl e \<Rightarrow> Inl e
      | Inr (cmd, args2) \<Rightarrow> Inr (handler cmd args2, pm\<lparr>pm_args := args2\<rparr>))"

definition without_cmdarg ::
  "pymain \<Rightarrow> string \<Rightarrow> string \<Rightarrow> string list \<Rightarrow> action list \<Rightarrow> exn + (action list \<times> pymain)" where
  \<comment> \<open>\<^verbatim>\<open>nocmdarg()\<close>, then the handler\<close>
  "without_cmdarg pm arg0 equalsign args1 acts =
     (case nocmdarg arg0 equalsign of
        Inl e \<Rightarrow> Inl e
      | Inr u \<Rightarrow> Inr (acts, pm\<lparr>pm_args := args1\<rparr>))"

definition split_action :: "string \<Rightarrow> string option \<times> string \<times> string" where
  \<comment> \<open>\<open>action, equalsign, cmdarg\<close> from the first token; an absent \<open>equalsign\<close> or
      \<open>cmdarg\<close> is the empty string\<close>
  "split_action arg0 =
     (if py_startswith arg0 ''--'' then
        (case py_partition CHR ''='' (drop 2 arg0) of (a, e, v) \<Rightarrow> (Some a, e, v))
      else if py_startswith arg0 ''-'' then
        (case py_partition CHR ''='' (drop 1 arg0) of (a, e, v) \<Rightarrow> (Some a, e, v))
      else if py_startswith arg0 ''%'' then (Some (drop 1 arg0), [], [])
      else if length arg0 > 1 \<or> arg0 = ''?'' then (Some arg0, [], [])
      else (None, [], []))"

definition PyMain_run_action :: "'ns collab \<Rightarrow> pymain \<Rightarrow> exn + (action list \<times> pymain)" where
  \<comment> \<open>\<^verbatim>\<open>_PyMain._run_action\<close>: the calls it makes, in order, and the object's fields after\<close>
  "PyMain_run_action c pm =
     (case pm_args pm of
        [] \<Rightarrow> if stdin_isatty c then Inr ([StartIPython []], pm) else Inr ([ExecStdin [[]]], pm)
      | arg0 # args1 \<Rightarrow>
          if arg0 = ''-'' then
            (if stdin_isatty c then Inr ([StartIPython []], pm)
             else Inr ([ExecStdin (pm_args pm)], pm))
          else if py_strip arg0 = [] then Inl (ValueError ''got empty string as first argument'')
          else
            (case split_action arg0 of
               (action, equalsign, cmdarg) \<Rightarrow>
                 if action_in action [''eval'', ''c'', ''e''] then
                   with_cmdarg pm arg0 equalsign cmdarg args1 (\<lambda>cmd as. [DoEval cmd as])
                 else if action_in action [''file'', ''execfile'', ''execf'', ''runfile'', ''run'', ''f''] then
                   with_cmdarg pm arg0 equalsign cmdarg args1 (\<lambda>cmd as. [DoExecfile cmd as])
                 else if action_in action [''apply'', ''call''] then
                   with_cmdarg pm arg0 equalsign cmdarg args1 (\<lambda>cmd as. [DoApply cmd as])
                 else if action_in action [''map''] then
                   with_cmdarg pm arg0 equalsign cmdarg args1
                     (\<lambda>cmd as. if as \<noteq> [] \<and> hd as = ''--''
                                then map (\<lambda>arg. DoApply cmd [''--'', arg]) (tl as)
                                else map (\<lambda>arg. DoApply cmd [arg]) as)
                 else if action_in action [''xargs''] then Inl (NotImplementedError ''TODO: xargs'')
                 else if action_in action [''module'', ''m'', ''runmodule'', ''run_module'', ''run-module''] then
                   with_cmdarg pm arg0 equalsign cmdarg args1 (\<lambda>modname as. [DoRunModule modname as])
                 else if py_startswith arg0 ''-m'' then
                   Inr ([DoRunModule (drop 2 arg0) args1], pm\<lparr>pm_args := args1\<rparr>)
                 else if action_in action [''ipython'', ''ip''] then
                   Inr ([StartIPython args1], pm\<lparr>pm_args := args1\<rparr>)
                 else if action_in action [''notebook'', ''nb''] then
                   without_cmdarg pm arg0 equalsign args1 [StartIPython (''notebook'' # args1)]
                 else if action_in action [''kernel''] then
                   without_cmdarg pm arg0 equalsign args1 [StartIPython (''kernel'' # args1)]
                 else if action_in action [''qtconsole'', ''qt''] then
                   without_cmdarg pm arg0 equalsign args1 [StartIPython (''qtconsole'' # args1)]
                 else if action_in action [''console''] then
                   without_cmdarg pm arg0 equalsign args1 [StartIPython (''console'' # args1)]
                 else if action_in action [''existing''] then
                   (let args2 = (if equalsign \<noteq> [] then cmdarg # args1 else args1)
                    in Inr ([StartIPython (''console'' # ''--existing'' # args2)], pm\<lparr>pm_args := args2\<rparr>))
                 else if action_in action [''nbconvert''] then
                   (let args2 = (if equalsign \<noteq> [] then cmdarg # args1 else args1)
                    in Inr ([StartIPython (''nbconvert'' # args2)], pm\<lparr>pm_args := args2\<rparr>))
                 else if action_in action [''timeit''] then
                   without_cmdarg pm arg0 equalsign args1
                     [RunIPythonLineMagic (''%timeit '' @ py_join '' '' args1)]
                 else if action_in action [''time''] then
                   without_cmdarg pm arg0 equalsign args1
                     [RunIPythonLineMagic (''%time '' @ py_join '' '' args1)]
                 else if action_in action [''version''] then
                   (let args2 = (if equalsign \<noteq> [] then cmdarg # args1 else args1)
                    in Inr ([PrintVersion (case args2 of [] \<Rightarrow> None | a # as \<Rightarrow> Some a)],
                            pm\<lparr>pm_args := args2\<rparr>))
                 else if action_in action [''help'', ''h'', ''?''] then
                   (let args2 = (if equalsign \<noteq> [] then cmdarg # args1 else args1)
                    in Inr ([PrintHelp (case args2 of [] \<Rightarrow> None | a # as \<Rightarrow> Some a) 1],
                            pm\<lparr>pm_args := args2\<rparr>))
                 else if action_in action [''pinfo''] then
                   with_cmdarg pm arg0 equalsign cmdarg args1 (\<lambda>cmd as. [PrintHelp (Some cmd) 1])
                 else if action_in action [''source'', ''pinfo2'', ''??''] then
                   with_cmdarg pm arg0 equalsign cmdarg args1 (\<lambda>cmd as. [PrintHelp (Some cmd) 2])
                 else if py_startswith arg0 ''-'' then
                   Inr ([Syntax (Some (''Unknown option '' @ arg0
                           @ (if py_startswith arg0 ''-c''
                              then ''; do you mean -c '' @ drop 2 arg0 @ ''?'' else [])))],
                        pm\<lparr>pm_args := args1\<rparr>)
                 else if py_startswith arg0 ''??'' then
                   Inr ([PrintHelp (Some (drop 2 arg0)) 2], pm\<lparr>pm_args := args1\<rparr>)
                 else if py_endswith arg0 ''??'' then
                   Inr ([PrintHelp (Some (take (length arg0 - 2) arg0)) 2], pm\<lparr>pm_args := args1\<rparr>)
                 else if py_startswith arg0 ''?'' then
                   Inr ([PrintHelp (Some (drop 1 arg0)) 1], pm\<lparr>pm_args := args1\<rparr>)
                 else if py_endswith arg0 ''?'' then
                   Inr ([PrintHelp (Some (take (length arg0 - 1) arg0)) 1], pm\<lparr>pm_args := args1\<rparr>)
                 else if py_startswith arg0 ''%'' then
                   Inr ([RunIPythonLineMagic (py_join '' '' (arg0 # args1))], pm\<lparr>pm_args := args1\<rparr>)
                 else if seems_like_filename c arg0 then
                   Inr ([DoExecfile arg0 args1], pm\<lparr>pm_args := args1\<rparr>)
                 else if args1 \<noteq> [] \<and> pm_arg_mode pm \<noteq> Some ''string''
                         \<and> \<not> list_ex blank_or_option args1
                         \<and> parsable c (py_join '' '' (arg0 # args1)) then
                   Inr ([DoEval (py_join '' '' (arg0 # args1)) []],
                        pm\<lparr>pm_args := args1, pm_arg_mode := Some ''error''\<rparr>)
                 else if \<not> parsable c arg0 then
                   Inr ([LoggerError (''Could not interpret as filename or expression: '' @ arg0),
                         Syntax None], pm\<lparr>pm_args := args1\<rparr>)
                 else Inr ([HeuristicCmd arg0 args1 arg0], pm\<lparr>pm_args := args1\<rparr>)))"

section \<open>Vocabulary of the properties\<close>

fun is_str :: "pyval \<Rightarrow> bool" where
  \<comment> \<open>\<^verbatim>\<open>isinstance(v, str)\<close>\<close>
  "is_str (PyStr s) = True"
| "is_str v = False"

fun resolved_mode :: "exn + string \<Rightarrow> string option" where
  \<comment> \<open>what a resolver decides: the canonical mode, or rejection\<close>
  "resolved_mode (Inl e) = None"
| "resolved_mode (Inr m) = Some m"

definition is_separator :: "char \<Rightarrow> bool" where
  "is_separator c = (c = CHR ''-'' \<or> c = CHR ''_'')"

definition same_letter :: "char \<Rightarrow> char \<Rightarrow> bool" where
  \<comment> \<open>equal up to letter case\<close>
  "same_letter c d = (py_lower_char c = py_lower_char d)"

definition case_variant :: "string \<Rightarrow> string \<Rightarrow> bool" where
  \<comment> \<open>\<open>t\<close> is \<open>s\<close> with the case of some letters changed\<close>
  "case_variant s t = list_all2 same_letter s t"

definition without_separators :: "string \<Rightarrow> string" where
  "without_separators s = filter (\<lambda>c. \<not> is_separator c) s"

definition spelling_variant :: "string \<Rightarrow> string \<Rightarrow> bool" where
  \<comment> \<open>\<open>t\<close> is \<open>s\<close> with separators inserted or removed and the case of some letters
      changed: without their separators the two agree letter by letter up to case\<close>
  "spelling_variant s t = list_all2 same_letter (without_separators s) (without_separators t)"

definition argv_items :: "'ns world \<Rightarrow> pyval list" where
  \<comment> \<open>the contents of \<^verbatim>\<open>sys.argv\<close>\<close>
  "argv_items w = (case sys_argv w of PyList xs \<Rightarrow> xs | LoggedRef r \<Rightarrow> ll_items (heap w r))"

definition allocated_argv :: "'ns world \<Rightarrow> bool" where
  \<comment> \<open>a \<^verbatim>\<open>LoggedList\<close> that \<^verbatim>\<open>sys.argv\<close> refers to has been created\<close>
  "allocated_argv w = (case sys_argv w of PyList xs \<Rightarrow> True | LoggedRef r \<Rightarrow> r < heap_next w)"

definition is_option_token :: "string \<Rightarrow> bool" where
  \<comment> \<open>a token that the scanning loop reads as a keyword option\<close>
  "is_option_token arg =
     (py_startswith arg ''-''
      \<and> arg \<notin> set [''-'', ''--'', ''--?'', ''-?'', ''?'', ''--??'', ''-??'', ''??''])"

definition is_positional_token :: "string \<Rightarrow> bool" where
  \<comment> \<open>a token that the scanning loop appends to the positional arguments\<close>
  "is_positional_token arg = (\<not> py_startswith arg ''-'' \<and> arg \<notin> set [''?'', ''??''])"

definition option_name :: "string \<Rightarrow> string" where
  \<comment> \<open>the name of an option token: dashes stripped, what precedes \<^verbatim>\<open>=\<close>, inner dashes
      replaced by underscores\<close>
  "option_name arg = py_replace_char CHR ''-'' CHR ''_'' (fst (py_partition CHR ''='' (option_body arg)))"

definition option_equalsign :: "string \<Rightarrow> string" where
  "option_equalsign arg = fst (snd (py_partition CHR ''='' (option_body arg)))"

definition option_value :: "string \<Rightarrow> string" where
  \<comment> \<open>what follows \<^verbatim>\<open>=\<close> in an option token\<close>
  "option_value arg = snd (snd (py_partition CHR ''='' (option_body arg)))"

definition candidates :: "argspec \<Rightarrow> string \<Rightarrow> string list" where
  \<comment> \<open>the declared parameter names that a non-empty option name is a prefix of, in the
      order of declaration\<close>
  "candidates argspec name = filter (\<lambda>a. name \<noteq> [] \<and> py_startswith a name) (args argspec)"

definition resolves_to :: "'ns collab \<Rightarrow> argspec \<Rightarrow> string \<Rightarrow> string \<Rightarrow> bool" where
  \<comment> \<open>the option token stands for the keyword argument \<open>name\<close>\<close>
  "resolves_to c argspec arg name =
     (is_option_token arg \<and> is_identifier c (option_name arg)
      \<and> match_argname argspec (prefix2argname_of argspec) (option_name arg) (option_equalsign arg)
          = Inr name)"

definition lookup_list :: "('k \<rightharpoonup> 'v list) \<Rightarrow> 'k \<Rightarrow> 'v list" where
  "lookup_list d k = (case d k of None \<Rightarrow> [] | Some vs \<Rightarrow> vs)"

section \<open>A concrete setting for evaluating the model\<close>

text \<open>
  Stand-ins for the collaborators, small enough to evaluate: a renderer that quotes
  strings, a parser and an evaluator that know a handful of fragments, an importer to
  which \<^verbatim>\<open>foo5\<close> is unknown, and one callable \<^verbatim>\<open>f(x)\<close>.
\<close>

fun demo_repr :: "pyval \<Rightarrow> string" where
  "demo_repr PyNone = ''None''"
| "demo_repr (PyStr s) = CHR 0x27 # s @ [CHR 0x27]"
| "demo_repr (PyInt i) = string_of_int i"
| "demo_repr (PyFloat m e) = (if m = 3 \<and> e = - 2 then ''0.75'' else ''<float>'')"
| "demo_repr (PyObj tn i) = ''<'' @ tn @ ''>''"

fun demo_str :: "pyval \<Rightarrow> string" where
  "demo_str (PyStr s) = s"
| "demo_str v = demo_repr v"

fun demo_idisp :: "pyval \<Rightarrow> (unit world \<Rightarrow> (pyval, unit) res) option" where
  "demo_idisp (PyObj tn i) =
     (if tn = ''Widget'' then Some (\<lambda>w. (Inr (PyStr ''a widget''), w)) else None)"
| "demo_idisp v = None"

definition demo_expressions :: "string list" where
  "demo_expressions =
     [''5+2'', ''foo5+2'', ''1/0'', ''len(5)'', ''3 / 4'', ''3'', ''4'', ''1'', ''2'', ''7'', ''16'',
      ''2014'', ''f'']"

definition demo_eval :: "string \<Rightarrow> exn + pyval" where
  "demo_eval s =
     (if s = ''5+2'' then Inr (PyInt 7)
      else if s = ''1/0'' then Inl (OtherException ''ZeroDivisionError'' ''integer division or modulo by zero'')
      else if s = ''len(5)'' then Inl (TypeError ''object of type int has no len()'')
      else if s = ''3 / 4'' then Inr (PyFloat 3 (- 2))
      else if s = ''1'' then Inr (PyInt 1)
      else if s = ''2'' then Inr (PyInt 2)
      else if s = ''3'' then Inr (PyInt 3)
      else if s = ''4'' then Inr (PyInt 4)
      else if s = ''7'' then Inr (PyInt 7)
      else if s = ''16'' then Inr (PyInt 16)
      else if s = ''2014'' then Inr (PyInt 2014)
      else if s = ''f'' then Inr (PyObj ''function'' 0)
      else Inr PyNone)"

definition demo_is_identifier :: "string \<Rightarrow> bool" where
  "demo_is_identifier s =
     (s \<noteq> [] \<and> (py_isalpha_ascii (hd s) \<or> hd s = CHR ''_'')
      \<and> list_all (\<lambda>c. py_isalpha_ascii c \<or> c = CHR ''_'' \<or> c \<in> set ''0123456789'') s)"

definition demo_argspec :: argspec where
  "demo_argspec = \<lparr>args = [''x''], varargs = None, keywords_name = None, defaults = None\<rparr>"

definition demo_collab :: "unit collab" where
  "demo_collab =
     \<lparr>py_str = demo_str, py_repr = demo_repr, pformat = demo_repr, get_idisp = demo_idisp,
      parsable_as_expression = (\<lambda>s. s \<in> set demo_expressions),
      parsable = (\<lambda>s. s \<in> set demo_expressions),
      is_identifier = demo_is_identifier,
      auto_import = (\<lambda>s w. (s \<noteq> ''foo5+2'', w)),
      find_missing_imports = (\<lambda>s w. if s = ''foo5+2'' then [''foo5''] else []),
      auto_eval = (\<lambda>s mode w. (demo_eval s, w)),
      is_callable = (\<lambda>v. v = PyObj ''function'' 0),
      name_of_function = (\<lambda>v. Inr ''f''),
      get_argspec = (\<lambda>v. Inr demo_argspec),
      call_function = (\<lambda>f as kws w. (Inr PyNone, w)),
      get_help = (\<lambda>f n v. ''help for '' @ n),
      format_call = (\<lambda>n spec as kws. n @ ''(...)''),
      stdin_isatty = False,
      safe_filename = (\<lambda>s. list_all (\<lambda>c. c \<notin> set ''( )*'') s),
      filename_ext = (\<lambda>s. if py_endswith s ''.py'' then ''.py'' else []),
      file_exists = (\<lambda>s. False)\<rparr>"

definition demo_world :: "unit world" where
  "demo_world =
     \<lparr>namespace = (), stdin = ''hello'', stdout = [], stderr = [], info_enabled = True,
      sys_argv = PyList [PyStr ''py''], heap = (\<lambda>r. LoggedList_init []), heap_next = 0\<rparr>"


definition demo_foo_spec :: argspec where
  "demo_foo_spec = \<lparr>args = [''foobar'', ''foobaz''], varargs = None, keywords_name = None, defaults = None\<rparr>"

definition demo_exact_spec :: argspec where
  "demo_exact_spec = \<lparr>args = [''foo'', ''foobar''], varargs = None, keywords_name = None, defaults = None\<rparr>"

definition demo_ymd_spec :: argspec where
  "demo_ymd_spec = \<lparr>args = [''year'', ''month'', ''day''], varargs = None, keywords_name = None,
                     defaults = None\<rparr>"

definition demo_pm :: pymain where
  "demo_pm = \<lparr>pm_args = [''3'', ''/'', ''4''], pm_arg_mode = None, pm_output_mode = None\<rparr>"

lemma interpret_output_mode_interactive:
  "interpret_output_mode c (Some ''interactive'') d = Inr ''interactive''"
  by code_simp

section \<open>The result printer: the interactive mode\<close>

text \<open>
  Claim C1. The claim is that \<^verbatim>\<open>print_result(v, "interactive")\<close>, for a value with an
  \<^verbatim>\<open>__interactive_display__\<close>, calls it, prints its outcome unless that is \<^verbatim>\<open>None\<close>,
  and completes without an assertion failure. The code sets the mode to
  \<^verbatim>\<open>"result-if-not-none"\<close>, which no branch of the chain that follows handles: whenever
  the display call returns, \<^verbatim>\<open>print_result\<close> raises \<^verbatim>\<open>AssertionError\<close> and prints
  nothing.
\<close>
theorem print_result_interactive_display:
  assumes "get_idisp c v = Some idisp" and "idisp w = (Inr r, w')"
  shows "print_result c v (Some ''interactive'') w =
           (Inl (AssertionError (''unexpected output_mode='' @ py_repr c (PyStr ''result-if-not-none''))), w')"
  using assms by (simp add: print_result_def interpret_output_mode_interactive)

theorem print_result_interactive_display_witness:
  "get_idisp demo_collab (PyObj ''Widget'' 0) = Some (\<lambda>w. (Inr (PyStr ''a widget''), w))
   \<and> print_result demo_collab (PyObj ''Widget'' 0) (Some ''interactive'') demo_world =
       (Inl (AssertionError (''unexpected output_mode='' @ [CHR 0x27] @ ''result-if-not-none'' @ [CHR 0x27])),
        demo_world)"
proof -
  have h: "get_idisp demo_collab (PyObj ''Widget'' 0) = Some (\<lambda>w. (Inr (PyStr ''a widget''), w))"
    by (simp add: demo_collab_def)
  have r: "py_repr demo_collab (PyStr ''result-if-not-none'') = CHR 0x27 # ''result-if-not-none'' @ [CHR 0x27]"
    by (simp add: demo_collab_def)
  show ?thesis
    using print_result_interactive_display [OF h, of demo_world "PyStr ''a widget''" demo_world] h r
    by simp
qed


section \<open>The value-or-string parser\<close>

lemma parse_value_or_string_not_str:
  "\<not> is_str arg \<Longrightarrow>
   parse_value_or_string c arg arg_mode w =
     (Inl (TypeError (''_parse_value_or_string(): expected str instead of '' @ type_name arg)), w)"
  by (cases arg) (simp_all add: parse_value_or_string_def)

lemma Namespace_auto_eval_TypeError:
  "Namespace_auto_eval c s mode info w = (Inl (TypeError m), w') \<Longrightarrow>
   \<exists>w1. auto_eval c s mode w1 = (Inl (TypeError m), w')"
  by (auto simp: Namespace_auto_eval_def Let_def split: prod.splits if_splits)

lemma parse_value_or_string_str_TypeError:
  assumes "parse_value_or_string c (PyStr s) arg_mode w = (Inl (TypeError m), w')"
  shows "(arg_mode = ''eval'' \<or> arg_mode = ''auto'') \<and> parsable_as_expression c s
         \<and> (\<exists>w1. auto_eval c s None w1 = (Inl (TypeError m), w'))"
  using assms
  by (auto simp: parse_value_or_string_def split: if_splits prod.splits sum.splits
           dest: Namespace_auto_eval_TypeError)

text \<open>
  Claim C10. A value that is not a string makes \<^verbatim>\<open>_parse_value_or_string\<close> raise the
  \<^verbatim>\<open>TypeError\<close> that names its type, whatever the mode (also a mode that is none of
  the four) and with the process state untouched. For a string, a \<^verbatim>\<open>TypeError\<close> can
  only be one that the evaluation of the token raised, in mode eval or auto; in mode
  string the token is returned.
\<close>
theorem parse_value_or_string_type_check:
  "(\<not> is_str arg \<longrightarrow>
      parse_value_or_string c arg arg_mode w =
        (Inl (TypeError (''_parse_value_or_string(): expected str instead of '' @ type_name arg)), w))
   \<and> (parse_value_or_string c (PyStr s) arg_mode w = (Inl (TypeError m), w') \<longrightarrow>
        (arg_mode = ''eval'' \<or> arg_mode = ''auto'') \<and> parsable_as_expression c s
        \<and> (\<exists>w1. auto_eval c s None w1 = (Inl (TypeError m), w')))
   \<and> parse_value_or_string c (PyStr s) ''string'' w = (Inr (PyStr s), w)"
  using parse_value_or_string_not_str [of arg c arg_mode w]
        parse_value_or_string_str_TypeError [of c s arg_mode w m w']
  by (simp add: parse_value_or_string_def)

lemma Namespace_auto_eval_unimportable:
  assumes "auto_import c s w = (False, w1)" and "find_missing_imports c s w1 \<noteq> []"
  shows "\<exists>m. Namespace_auto_eval c s mode info w = (Inl (UnimportableNameError m), w1)"
proof -
  have "length (find_missing_imports c s w1) = 1 \<or> length (find_missing_imports c s w1) > 1"
    using assms(2) by (cases "find_missing_imports c s w1") auto
  then show ?thesis using assms(1)
    by (auto simp: Namespace_auto_eval_def Let_def)
qed

text \<open>
  Claim C2. In mode auto: a token that does not parse as an expression is returned as
  a string; one that parses, and for which the auto-import leaves names unresolved, is
  returned as a string; any failure of the evaluation other than
  \<^verbatim>\<open>UnimportableNameError\<close> leaves \<^verbatim>\<open>_parse_value_or_string\<close> as it is; and a value is
  passed on.
\<close>
theorem parse_value_or_string_auto:
  "(\<not> parsable_as_expression c s \<longrightarrow>
      parse_value_or_string c (PyStr s) ''auto'' w = (Inr (PyStr s), w))
   \<and> (parsable_as_expression c s \<and> auto_import c s w = (False, w1)
        \<and> find_missing_imports c s w1 \<noteq> [] \<longrightarrow>
      parse_value_or_string c (PyStr s) ''auto'' w = (Inr (PyStr s), w1))
   \<and> (parsable_as_expression c s \<and> Namespace_auto_eval c s None False w = (Inl e, w2)
        \<and> \<not> is_UnimportableNameError e \<longrightarrow>
      parse_value_or_string c (PyStr s) ''auto'' w = (Inl e, w2))
   \<and> (parsable_as_expression c s \<and> Namespace_auto_eval c s None False w = (Inr v, w3) \<longrightarrow>
      parse_value_or_string c (PyStr s) ''auto'' w = (Inr v, w3))"
proof -
  have "parse_value_or_string c (PyStr s) ''auto'' w = (Inr (PyStr s), w1)"
    if "parsable_as_expression c s" "auto_import c s w = (False, w1)"
       "find_missing_imports c s w1 \<noteq> []"
    using Namespace_auto_eval_unimportable [OF that(2,3), of None False] that(1)
    by (auto simp: parse_value_or_string_def)
  then show ?thesis
    by (auto simp: parse_value_or_string_def)
qed


theorem parse_value_or_string_type_check_witness:
  "\<not> is_str (PyInt 3)
   \<and> parse_value_or_string demo_collab (PyInt 3) ''eval'' demo_world =
       (Inl (TypeError ''_parse_value_or_string(): expected str instead of int''), demo_world)
   \<and> parse_value_or_string demo_collab (PyStr ''len(5)'') ''eval'' demo_world =
       (Inl (TypeError ''object of type int has no len()''), demo_world)
   \<and> (\<exists>w1. auto_eval demo_collab ''len(5)'' None w1 =
              (Inl (TypeError ''object of type int has no len()''), demo_world))
   \<and> parse_value_or_string demo_collab (PyStr ''len(5)'') ''string'' demo_world =
       (Inr (PyStr ''len(5)''), demo_world)"
proof -
  have h: "parse_value_or_string demo_collab (PyStr ''len(5)'') ''eval'' demo_world =
             (Inl (TypeError ''object of type int has no len()''), demo_world)"
    by (simp add: parse_value_or_string_def Namespace_auto_eval_def demo_collab_def
          demo_expressions_def demo_eval_def)
  show ?thesis
    using parse_value_or_string_type_check [of "PyInt 3" demo_collab "''eval''" demo_world
        "''len(5)''" "''object of type int has no len()''" demo_world] h
    by simp
qed

theorem parse_value_or_string_auto_witness:
  "\<not> parsable_as_expression demo_collab ''5foo+2''
   \<and> parse_value_or_string demo_collab (PyStr ''5foo+2'') ''auto'' demo_world =
       (Inr (PyStr ''5foo+2''), demo_world)
   \<and> parsable_as_expression demo_collab ''foo5+2''
   \<and> auto_import demo_collab ''foo5+2'' demo_world = (False, demo_world)
   \<and> find_missing_imports demo_collab ''foo5+2'' demo_world \<noteq> []
   \<and> parse_value_or_string demo_collab (PyStr ''foo5+2'') ''auto'' demo_world =
       (Inr (PyStr ''foo5+2''), demo_world)
   \<and> parsable_as_expression demo_collab ''1/0''
   \<and> \<not> is_UnimportableNameError (OtherException ''ZeroDivisionError'' ''integer division or modulo by zero'')
   \<and> parse_value_or_string demo_collab (PyStr ''1/0'') ''auto'' demo_world =
       (Inl (OtherException ''ZeroDivisionError'' ''integer division or modulo by zero''), demo_world)
   \<and> parse_value_or_string demo_collab (PyStr ''5+2'') ''auto'' demo_world =
       (Inr (PyInt 7), demo_world)"
proof -
  have a: "\<not> parsable_as_expression demo_collab ''5foo+2''"
    by (simp add: demo_collab_def demo_expressions_def)
  have b: "parsable_as_expression demo_collab ''foo5+2''"
          "auto_import demo_collab ''foo5+2'' demo_world = (False, demo_world)"
          "find_missing_imports demo_collab ''foo5+2'' demo_world \<noteq> []"
    by (simp_all add: demo_collab_def demo_expressions_def)
  have c: "parsable_as_expression demo_collab ''1/0''"
          "Namespace_auto_eval demo_collab ''1/0'' None False demo_world =
             (Inl (OtherException ''ZeroDivisionError'' ''integer division or modulo by zero''), demo_world)"
    by (simp_all add: demo_collab_def demo_expressions_def Namespace_auto_eval_def demo_eval_def)
  have d: "parsable_as_expression demo_collab ''5+2''"
          "Namespace_auto_eval demo_collab ''5+2'' None False demo_world = (Inr (PyInt 7), demo_world)"
    by (simp_all add: demo_collab_def demo_expressions_def Namespace_auto_eval_def demo_eval_def)
  show ?thesis
    using parse_value_or_string_auto [of demo_collab "''5foo+2''" demo_world]
          parse_value_or_string_auto [of demo_collab "''foo5+2''" demo_world demo_world]
          parse_value_or_string_auto [of demo_collab "''1/0''" demo_world _ _ demo_world]
          parse_value_or_string_auto [of demo_collab "''5+2''" demo_world _ _ _ _ demo_world]
          a b c d
    by simp
qed

section \<open>The mode resolvers\<close>

lemma char_eq_code: "(c = d) = ((of_char c :: nat) = of_char d)"
  by simp

lemma of_char_lower:
  "(of_char (py_lower_char c) :: nat) =
     (if 65 \<le> (of_char c :: nat) \<and> (of_char c :: nat) \<le> 90 then of_char c + 32 else of_char c)"
  by (simp add: py_lower_char_def Let_def)

lemma isspace_code: "py_isspace c = ((of_char c :: nat) \<in> {32, 9, 10, 13, 11, 12})"
  unfolding py_isspace_def by (simp add: char_eq_code [of c])

lemma is_separator_code: "is_separator c = ((of_char c :: nat) \<in> {45, 95})"
  unfolding is_separator_def by (simp add: char_eq_code [of c])

lemma py_isspace_lower [simp]: "py_isspace (py_lower_char c) = py_isspace c"
  unfolding isspace_code of_char_lower by auto

lemma is_separator_lower [simp]: "is_separator (py_lower_char c) = is_separator c"
  unfolding is_separator_code of_char_lower by auto

lemma py_strip_map:
  "(\<And>c. py_isspace (f c) = py_isspace c) \<Longrightarrow> py_strip (map f s) = map f (py_strip s)"
  by (simp add: py_strip_def dropWhile_map rev_map comp_def)

lemma py_strip_lower: "py_strip (py_lower s) = py_lower (py_strip s)"
  unfolding py_lower_def by (rule py_strip_map) simp

lemma same_letter_lower: "list_all2 same_letter s t \<Longrightarrow> py_lower s = py_lower t"
  unfolding py_lower_def
  by (induction rule: list_all2_induct) (simp_all add: same_letter_def)

lemma remove_separators:
  "py_remove_char CHR ''_'' (py_remove_char CHR ''-'' s) = without_separators s"
  by (auto simp: py_remove_char_def is_separator_def without_separators_def intro: filter_cong)

lemma without_separators_lower:
  "without_separators (py_lower s) = py_lower (without_separators s)"
  by (simp add: py_lower_def filter_map comp_def without_separators_def)

lemma arg_mode_rarg: "case_variant s t \<Longrightarrow> py_lower (py_strip s) = py_lower (py_strip t)"
  by (simp add: case_variant_def same_letter_lower py_strip_lower [symmetric])

lemma output_mode_rarg:
  assumes "spelling_variant (py_strip s) (py_strip t)"
  shows "py_remove_char CHR ''_'' (py_remove_char CHR ''-'' (py_lower (py_strip s)))
       = py_remove_char CHR ''_'' (py_remove_char CHR ''-'' (py_lower (py_strip t)))"
proof -
  have "py_lower (without_separators (py_strip s)) = py_lower (without_separators (py_strip t))"
    using assms by (simp add: spelling_variant_def same_letter_lower)
  then show ?thesis by (simp add: remove_separators without_separators_lower)
qed

text \<open>
  Claim C6, as amended. \<^verbatim>\<open>_interpret_arg_mode\<close> decides the same for two strings
  that, as they are or stripped of surrounding white space, differ in letter case
  only. \<^verbatim>\<open>_interpret_output_mode\<close> decides the same for every two strings that differ
  in letter case only, and for every two strings that, stripped of surrounding white
  space, differ in letter case and in \<^verbatim>\<open>-\<close>/\<^verbatim>\<open>_\<close> separators only.
\<close>

theorem resolvers_insensitive:
  "(case_variant (py_strip s) (py_strip t) \<longrightarrow>
      resolved_mode (interpret_arg_mode c (Some s) d) = resolved_mode (interpret_arg_mode c (Some t) d))
   \<and> (case_variant s t \<longrightarrow>
      resolved_mode (interpret_arg_mode c (Some s) d) = resolved_mode (interpret_arg_mode c (Some t) d))
   \<and> (case_variant s t \<longrightarrow>
      resolved_mode (interpret_output_mode c (Some s) d)
        = resolved_mode (interpret_output_mode c (Some t) d))
   \<and> (spelling_variant (py_strip s) (py_strip t) \<longrightarrow>
      resolved_mode (interpret_output_mode c (Some s) d)
        = resolved_mode (interpret_output_mode c (Some t) d))"
proof (intro conjI impI)
  assume "case_variant (py_strip s) (py_strip t)"
  then have "py_lower (py_strip s) = py_lower (py_strip t)"
    by (simp add: case_variant_def same_letter_lower)
  then show "resolved_mode (interpret_arg_mode c (Some s) d) = resolved_mode (interpret_arg_mode c (Some t) d)"
    by (simp add: interpret_arg_mode_def Let_def)
next
  assume "case_variant s t"
  then have "py_lower (py_strip s) = py_lower (py_strip t)" by (rule arg_mode_rarg)
  then show "resolved_mode (interpret_arg_mode c (Some s) d) = resolved_mode (interpret_arg_mode c (Some t) d)"
    by (simp add: interpret_arg_mode_def Let_def)
next
  assume "case_variant s t"
  then have "py_lower (py_strip s) = py_lower (py_strip t)" by (rule arg_mode_rarg)
  then show "resolved_mode (interpret_output_mode c (Some s) d)
        = resolved_mode (interpret_output_mode c (Some t) d)"
    by (simp add: interpret_output_mode_def Let_def)
next
  assume "spelling_variant (py_strip s) (py_strip t)"
  then have "py_remove_char CHR ''_'' (py_remove_char CHR ''-'' (py_lower (py_strip s)))
       = py_remove_char CHR ''_'' (py_remove_char CHR ''-'' (py_lower (py_strip t)))"
    by (rule output_mode_rarg)
  then show "resolved_mode (interpret_output_mode c (Some s) d)
        = resolved_mode (interpret_output_mode c (Some t) d)"
    by (simp add: interpret_output_mode_def Let_def)
qed

theorem resolvers_insensitive_witness:
  "case_variant ''Str'' ''sTR''
   \<and> resolved_mode (interpret_arg_mode demo_collab (Some ''Str'') ''auto'') = Some ''string''
   \<and> resolved_mode (interpret_arg_mode demo_collab (Some ''sTR'') ''auto'') = Some ''string''
   \<and> case_variant (py_strip '' Eval'') (py_strip ''eVAL  '')
   \<and> resolved_mode (interpret_arg_mode demo_collab (Some '' Eval'') ''auto'') = Some ''eval''
   \<and> resolved_mode (interpret_arg_mode demo_collab (Some ''eVAL  '') ''auto'') = Some ''eval''
   \<and> case_variant '' NONE'' '' none''
   \<and> resolved_mode (interpret_output_mode demo_collab (Some '' NONE'') ''interactive'') = Some ''silent''
   \<and> resolved_mode (interpret_output_mode demo_collab (Some '' none'') ''interactive'') = Some ''silent''
   \<and> spelling_variant (py_strip '' Repr_If_Not_None '') (py_strip ''reprifnotnone'')
   \<and> resolved_mode (interpret_output_mode demo_collab (Some '' Repr_If_Not_None '') ''interactive'')
       = Some ''repr-if-not-none''
   \<and> resolved_mode (interpret_output_mode demo_collab (Some ''reprifnotnone'') ''interactive'')
       = Some ''repr-if-not-none''"
proof -
  have a: "case_variant ''Str'' ''sTR''" by code_simp
  have a': "case_variant (py_strip '' Eval'') (py_strip ''eVAL  '')" by code_simp
  have b: "case_variant '' NONE'' '' none''" by code_simp
  have b': "spelling_variant (py_strip '' Repr_If_Not_None '') (py_strip ''reprifnotnone'')"
    by code_simp
  have d: "resolved_mode (interpret_arg_mode demo_collab (Some ''Str'') ''auto'') = Some ''string''"
    by code_simp
  have d': "resolved_mode (interpret_arg_mode demo_collab (Some '' Eval'') ''auto'') = Some ''eval''"
    by code_simp
  have e: "resolved_mode (interpret_output_mode demo_collab (Some '' NONE'') ''interactive'') = Some ''silent''"
    by code_simp
  have e': "resolved_mode (interpret_output_mode demo_collab (Some '' Repr_If_Not_None '') ''interactive'')
       = Some ''repr-if-not-none''"
    by code_simp
  show ?thesis
    using resolvers_insensitive [of "''Str''" "''sTR''" demo_collab "''auto''"]
          resolvers_insensitive [of "'' Eval''" "''eVAL  ''" demo_collab "''auto''"]
          resolvers_insensitive [of "'' NONE''" "'' none''" demo_collab "''interactive''"]
          resolvers_insensitive [of "'' Repr_If_Not_None ''" "''reprifnotnone''" demo_collab "''interactive''"]
          a a' b b' d d' e e'
    by simp
qed

text \<open>
  The claim C6 as it stands fails: \<^verbatim>\<open>_interpret_arg_mode\<close> removes no separators, so
  \<^verbatim>\<open>e-val\<close> is rejected and \<^verbatim>\<open>eval\<close> accepted; and \<^verbatim>\<open>_interpret_output_mode\<close> strips
  white space before it removes separators, so a separator before a leading blank
  keeps the blank.
\<close>
theorem resolvers_separator_counterexample:
  "spelling_variant ''eval'' ''e-val''
   \<and> resolved_mode (interpret_arg_mode demo_collab (Some ''eval'') ''auto'') = Some ''eval''
   \<and> resolved_mode (interpret_arg_mode demo_collab (Some ''e-val'') ''auto'') = None
   \<and> spelling_variant '' none'' ''- none''
   \<and> resolved_mode (interpret_output_mode demo_collab (Some '' none'') ''interactive'') = Some ''silent''
   \<and> resolved_mode (interpret_output_mode demo_collab (Some ''- none'') ''interactive'') = None"
  by code_simp

section \<open>The argument vector in a scope\<close>

lemma list_of_argv_items:
  "allocated_argv w \<Longrightarrow>
   list_of_argv (w\<lparr>heap_next := n, heap := (heap w)(heap_next w := l)\<rparr>) = (x1, x2) \<Longrightarrow>
   x1 = argv_items w"
  by (auto simp: list_of_argv_def argv_items_def allocated_argv_def LoggedList_iter_def
           split: argv_val.splits)

lemma snd_restore:
  "sys_argv (snd (case x of (r, w4) \<Rightarrow> (r, w4\<lparr>sys_argv := v\<rparr>))) = v"
  by (cases x) simp

text \<open>
  Claim C9. Whatever the managed body does (it may return, raise, leave arguments
  unaccessed so that the check exits with status 1, or assign to \<^verbatim>\<open>sys.argv\<close>
  itself), after \<^verbatim>\<open>SysArgvCtx\<close> \<^verbatim>\<open>sys.argv\<close> is a list of the items it had before;
  when it was a plain list before, it is that list again.
\<close>

theorem SysArgvCtx_restores:
  assumes "args0 \<noteq> []" and "allocated_argv w"
  shows "sys_argv (snd (SysArgvCtx c args0 body w)) = PyList (argv_items w)
         \<and> (\<forall>xs. sys_argv w = PyList xs \<longrightarrow> sys_argv (snd (SysArgvCtx c args0 body w)) = sys_argv w)"
proof -
  have "sys_argv (snd (SysArgvCtx c args0 body w)) = PyList (argv_items w)"
    using assms(1) list_of_argv_items [OF assms(2)]
    by (auto simp: SysArgvCtx_def Let_def LoggedList_getitem_def LoggedList_init_def
          snd_restore split: prod.split)
  then show ?thesis by (auto simp: argv_items_def)
qed


theorem SysArgvCtx_restores_witness:
  "[PyStr ''-c'', PyStr ''extra''] \<noteq> [] \<and> allocated_argv demo_world
   \<and> sys_argv demo_world = PyList [PyStr ''py'']
   \<and> fst (SysArgvCtx demo_collab [PyStr ''-c''] (\<lambda>w. (Inr (), w)) demo_world) = Inr ()
   \<and> sys_argv (snd (SysArgvCtx demo_collab [PyStr ''-c''] (\<lambda>w. (Inr (), w)) demo_world))
       = PyList [PyStr ''py'']
   \<and> fst (SysArgvCtx demo_collab [PyStr ''-c''] (\<lambda>w. (Inl (ValueError ''boom''), w)) demo_world)
       = Inl (ValueError ''boom'')
   \<and> sys_argv (snd (SysArgvCtx demo_collab [PyStr ''-c''] (\<lambda>w. (Inl (ValueError ''boom''), w)) demo_world))
       = PyList [PyStr ''py'']
   \<and> fst (SysArgvCtx demo_collab [PyStr ''-c'', PyStr ''extra''] (\<lambda>w. (Inr (), w)) demo_world)
       = Inl (SystemExit (PyInt 1))
   \<and> sys_argv (snd (SysArgvCtx demo_collab [PyStr ''-c'', PyStr ''extra''] (\<lambda>w. (Inr (), w)) demo_world))
       = PyList [PyStr ''py'']"
proof -
  have a: "allocated_argv demo_world" "sys_argv demo_world = PyList [PyStr ''py'']"
    by (simp_all add: allocated_argv_def demo_world_def)
  have i: "argv_items demo_world = [PyStr ''py'']"
    by (simp add: argv_items_def demo_world_def)
  have r1: "fst (SysArgvCtx demo_collab [PyStr ''-c''] (\<lambda>w. (Inr (), w)) demo_world) = Inr ()"
    by (simp add: SysArgvCtx_def Let_def LoggedList_getitem_def LoggedList_init_def
          list_of_argv_def demo_world_def LoggedList_unaccessed_def List.map_filter_def)
  have r2: "fst (SysArgvCtx demo_collab [PyStr ''-c''] (\<lambda>w. (Inl (ValueError ''boom''), w)) demo_world)
       = Inl (ValueError ''boom'')"
    by (simp add: SysArgvCtx_def Let_def LoggedList_getitem_def LoggedList_init_def
          list_of_argv_def demo_world_def LoggedList_unaccessed_def List.map_filter_def)
  have r3: "fst (SysArgvCtx demo_collab [PyStr ''-c'', PyStr ''extra''] (\<lambda>w. (Inr (), w)) demo_world)
       = Inl (SystemExit (PyInt 1))"
    by (simp add: SysArgvCtx_def Let_def LoggedList_getitem_def LoggedList_init_def
          list_of_argv_def demo_world_def LoggedList_unaccessed_def List.map_filter_def
          unused_message_def)
  show ?thesis
    using SysArgvCtx_restores [of "[PyStr ''-c'']" demo_world demo_collab "\<lambda>w. (Inr (), w)"]
          SysArgvCtx_restores [of "[PyStr ''-c'']" demo_world demo_collab "\<lambda>w. (Inl (ValueError ''boom''), w)"]
          SysArgvCtx_restores [of "[PyStr ''-c'', PyStr ''extra'']" demo_world demo_collab "\<lambda>w. (Inr (), w)"]
          a i r1 r2 r3
    by simp
qed

section \<open>Help, source and parse errors in an apply action\<close>

text \<open>
  Claim C8. When the argument parser leaves with the help or the source interrupt,
  \<^verbatim>\<open>auto_apply\<close> prints the help (verbosity 1) or the source (verbosity 2) of the
  function and raises \<^verbatim>\<open>SystemExit(0)\<close>; when it leaves with a \<^verbatim>\<open>ParseError\<close>,
  \<^verbatim>\<open>auto_apply\<close> logs the error, writes the usage to the standard error stream and
  raises \<^verbatim>\<open>SystemExit(1)\<close>. In each case what leaves \<^verbatim>\<open>auto_apply\<close> is the exit, not
  the signal.
\<close>

theorem auto_apply_parse_interrupts:
  assumes "interpret_function_name c function0 function_name0 w = (Inr (function, function_name), w1)"
      and "interpret_arg_mode c arg_mode0 ''auto'' = Inr arg_mode"
      and "get_argspec c function = Inr argspec"
      and "parse_auto_apply_args c argspec commandline_args arg_mode w1 = (Inl e, w2)"
  shows "(e = ParseInterruptedWantHelp \<longrightarrow>
            auto_apply c function0 commandline_args arg_mode0 function_name0 w =
              (Inl (SystemExit (PyInt 0)), py_print (get_help c function function_name 1) w2))
       \<and> (e = ParseInterruptedWantSource \<longrightarrow>
            auto_apply c function0 commandline_args arg_mode0 function_name0 w =
              (Inl (SystemExit (PyInt 0)), py_print (get_help c function function_name 2) w2))
       \<and> (e = ParseError msg \<longrightarrow>
            auto_apply c function0 commandline_args arg_mode0 function_name0 w =
              (Inl (SystemExit (PyInt 1)),
               stderr_write (CHR 0x0A # get_help c function function_name (if info_enabled w2 then 1 else 0))
                 (logger_error msg w2)))"
  using assms by (simp add: auto_apply_def)

lemma demo_f:
  "interpret_function_name demo_collab (PyStr ''f'') None demo_world = (Inr (PyObj ''function'' 0, ''f''), demo_world)"
  by (simp add: interpret_function_name_def demo_collab_def Namespace_auto_eval_def demo_eval_def Let_def)
     code_simp




theorem auto_apply_parse_interrupts_witness:
  "interpret_function_name demo_collab (PyStr ''f'') None demo_world
     = (Inr (PyObj ''function'' 0, ''f''), demo_world)
   \<and> interpret_arg_mode demo_collab None ''auto'' = Inr ''auto''
   \<and> get_argspec demo_collab (PyObj ''function'' 0) = Inr demo_argspec
   \<and> fst (parse_auto_apply_args demo_collab demo_argspec [''--help''] ''auto'' demo_world)
       = Inl ParseInterruptedWantHelp
   \<and> fst (auto_apply demo_collab (PyStr ''f'') [''--help''] None None demo_world)
       = Inl (SystemExit (PyInt 0))
   \<and> stdout (snd (auto_apply demo_collab (PyStr ''f'') [''--help''] None None demo_world))
       = [''help for f'']
   \<and> fst (parse_auto_apply_args demo_collab demo_argspec [''??''] ''auto'' demo_world)
       = Inl ParseInterruptedWantSource
   \<and> fst (auto_apply demo_collab (PyStr ''f'') [''??''] None None demo_world)
       = Inl (SystemExit (PyInt 0))
   \<and> fst (parse_auto_apply_args demo_collab demo_argspec [] ''auto'' demo_world)
       = Inl (ParseError ''missing required argument x'')
   \<and> fst (auto_apply demo_collab (PyStr ''f'') [] None None demo_world)
       = Inl (SystemExit (PyInt 1))
   \<and> stderr (snd (auto_apply demo_collab (PyStr ''f'') [] None None demo_world))
       = [LogError ''missing required argument x'', StderrWrite (CHR 0x0A # ''help for f'')]"
proof -
  let ?P = "\<lambda>toks. parse_auto_apply_args demo_collab demo_argspec toks ''auto'' demo_world"
  have f: "interpret_function_name demo_collab (PyStr ''f'') None demo_world
             = (Inr (PyObj ''function'' 0, ''f''), demo_world)"
    by (rule demo_f)
  have m: "interpret_arg_mode demo_collab None ''auto'' = Inr ''auto''"
    by code_simp
  have g: "get_argspec demo_collab (PyObj ''function'' 0) = Inr demo_argspec"
    by (simp add: demo_collab_def)
  have e1: "fst (?P [''--help'']) = Inl ParseInterruptedWantHelp" by code_simp
  have o1: "stdout (snd (?P [''--help''])) = []" by code_simp
  have e2: "fst (?P [''??'']) = Inl ParseInterruptedWantSource" by code_simp
  have e3: "fst (?P []) = Inl (ParseError ''missing required argument x'')" by code_simp
  have o3: "stderr (snd (?P [])) = []" by code_simp
  have h: "get_help demo_collab (PyObj ''function'' 0) ''f'' v = ''help for f''" for v
    by (simp add: demo_collab_def)
  have p1: "?P [''--help''] = (Inl ParseInterruptedWantHelp, snd (?P [''--help'']))"
    using e1 by (metis prod.collapse)
  have p2: "?P [''??''] = (Inl ParseInterruptedWantSource, snd (?P [''??'']))"
    using e2 by (metis prod.collapse)
  have p3: "?P [] = (Inl (ParseError ''missing required argument x''), snd (?P []))"
    using e3 by (metis prod.collapse)
  show ?thesis
    using auto_apply_parse_interrupts [OF f m g p1]
          auto_apply_parse_interrupts [OF f m g p2]
          auto_apply_parse_interrupts [OF f m g p3, of "''missing required argument x''"]
          f m g e1 e2 e3 o1 o3 h
    by (simp add: py_print_def stderr_write_def logger_error_def)
qed

section \<open>The dispatcher: the calculator heuristic\<close>

lemma first_token_3:
  "''3'' \<noteq> ''-''" "py_strip ''3'' \<noteq> []" "split_action ''3'' = (None, [], [])"
  "\<not> py_startswith ''3'' ''-m''" "\<not> py_startswith ''3'' ''-''" "\<not> py_startswith ''3'' ''??''"
  "\<not> py_endswith ''3'' ''??''" "\<not> py_startswith ''3'' ''?''" "\<not> py_endswith ''3'' ''?''"
  "\<not> py_startswith ''3'' ''%''" "\<not> blank_or_option ''/''" "\<not> blank_or_option ''4''"
  "py_join '' '' [''3'', ''/'', ''4''] = ''3 / 4''"
  by code_simp+

lemma modes_of_joined_eval:
  "interpret_arg_mode c (Some ''error'') ''string'' = Inr ''error''"
  "interpret_output_mode c None ''interactive'' = Inr ''interactive''"
  "interpret_output_mode c (Some ''interactive'') ''interactive'' = Inr ''interactive''"
  by code_simp+

lemma PyMain_eval_joined:
  assumes "pm_arg_mode pm' = Some ''error''" and "pm_output_mode pm' = None"
      and "allocated_argv w"
      and "\<forall>w. auto_import c cmd w = (True, w)"
      and "\<forall>w. auto_eval c cmd None w = (Inr v, w)"
      and "get_idisp c v = None" and "v \<noteq> PyNone"
  shows "fst (PyMain_eval c pm' cmd [] w) = Inr ()
         \<and> stdout (snd (PyMain_eval c pm' cmd [] w)) = stdout w @ [pformat c v]
         \<and> sys_argv (snd (PyMain_eval c pm' cmd [] w)) = PyList (argv_items w)"
  using assms
  by (auto simp: PyMain_eval_def modes_of_joined_eval SysArgvCtx_def Let_def
        LoggedList_getitem_def LoggedList_init_def Namespace_auto_eval_def print_result_def
        LoggedList_unaccessed_def List.map_filter_def py_print_def logger_info_def
        list_of_argv_def argv_items_def allocated_argv_def LoggedList_iter_def
        split: prod.splits argv_val.splits)

text \<open>
  Claim C7. With the arguments \<^verbatim>\<open>3 / 4\<close> and an argument mode other than string,
  \<^verbatim>\<open>_run_action\<close> asks the file-name heuristic first (a \<^verbatim>\<open>3\<close> that seems like a file
  name is executed as a file); otherwise, the three tokens joined by blanks being
  parsable, its one action is the evaluation of \<^verbatim>\<open>3 / 4\<close> with no arguments, the
  argument mode set to error, and there is no module run and no apply on \<^verbatim>\<open>3\<close>. That
  evaluation, the evaluator giving 0.75 for the division, completes and prints the
  rendering of 0.75.
\<close>

theorem run_action_calculator:
  assumes "pm_args pm = [''3'', ''/'', ''4'']" and "pm_arg_mode pm \<noteq> Some ''string''"
  shows
   "(seems_like_filename c ''3'' \<longrightarrow>
       PyMain_run_action c pm = Inr ([DoExecfile ''3'' [''/'', ''4'']], pm\<lparr>pm_args := [''/'', ''4'']\<rparr>))
    \<and> (\<not> seems_like_filename c ''3'' \<and> parsable c ''3 / 4'' \<longrightarrow>
       PyMain_run_action c pm =
         Inr ([DoEval ''3 / 4'' []], pm\<lparr>pm_args := [''/'', ''4''], pm_arg_mode := Some ''error''\<rparr>))
    \<and> (pm_output_mode pm = None \<and> allocated_argv w
        \<and> (\<forall>w. auto_import c ''3 / 4'' w = (True, w))
        \<and> (\<forall>w. auto_eval c ''3 / 4'' None w = (Inr (PyFloat 3 (- 2)), w))
        \<and> get_idisp c (PyFloat 3 (- 2)) = None \<longrightarrow>
       fst (PyMain_eval c (pm\<lparr>pm_args := [''/'', ''4''], pm_arg_mode := Some ''error''\<rparr>) ''3 / 4'' [] w)
         = Inr ()
       \<and> stdout (snd (PyMain_eval c (pm\<lparr>pm_args := [''/'', ''4''], pm_arg_mode := Some ''error''\<rparr>)
                        ''3 / 4'' [] w))
         = stdout w @ [pformat c (PyFloat 3 (- 2))])"
proof (intro conjI impI)
  assume "seems_like_filename c ''3''"
  then show "PyMain_run_action c pm = Inr ([DoExecfile ''3'' [''/'', ''4'']], pm\<lparr>pm_args := [''/'', ''4'']\<rparr>)"
    using assms by (simp add: PyMain_run_action_def first_token_3 action_in_def)
next
  assume "\<not> seems_like_filename c ''3'' \<and> parsable c ''3 / 4''"
  then show "PyMain_run_action c pm =
         Inr ([DoEval ''3 / 4'' []], pm\<lparr>pm_args := [''/'', ''4''], pm_arg_mode := Some ''error''\<rparr>)"
    using assms by (simp add: PyMain_run_action_def first_token_3 action_in_def)
next
  assume a: "pm_output_mode pm = None \<and> allocated_argv w
        \<and> (\<forall>w. auto_import c ''3 / 4'' w = (True, w))
        \<and> (\<forall>w. auto_eval c ''3 / 4'' None w = (Inr (PyFloat 3 (- 2)), w))
        \<and> get_idisp c (PyFloat 3 (- 2)) = None"
  let ?pm = "pm\<lparr>pm_args := [''/'', ''4''], pm_arg_mode := Some ''error''\<rparr>"
  have r: "fst (PyMain_eval c ?pm ''3 / 4'' [] w) = Inr ()
         \<and> stdout (snd (PyMain_eval c ?pm ''3 / 4'' [] w)) = stdout w @ [pformat c (PyFloat 3 (- 2))]
         \<and> sys_argv (snd (PyMain_eval c ?pm ''3 / 4'' [] w)) = PyList (argv_items w)"
    by (rule PyMain_eval_joined) (use a in simp_all)
  from r show "fst (PyMain_eval c ?pm ''3 / 4'' [] w) = Inr ()" by simp
  from r show "stdout (snd (PyMain_eval c ?pm ''3 / 4'' [] w)) = stdout w @ [pformat c (PyFloat 3 (- 2))]"
    by simp
qed


theorem run_action_calculator_witness:
  "pm_args demo_pm = [''3'', ''/'', ''4''] \<and> pm_arg_mode demo_pm \<noteq> Some ''string''
   \<and> \<not> seems_like_filename demo_collab ''3'' \<and> parsable demo_collab ''3 / 4''
   \<and> PyMain_run_action demo_collab demo_pm =
       Inr ([DoEval ''3 / 4'' []], demo_pm\<lparr>pm_args := [''/'', ''4''], pm_arg_mode := Some ''error''\<rparr>)
   \<and> pm_output_mode demo_pm = None \<and> allocated_argv demo_world
   \<and> (\<forall>w. auto_import demo_collab ''3 / 4'' w = (True, w))
   \<and> (\<forall>w. auto_eval demo_collab ''3 / 4'' None w = (Inr (PyFloat 3 (- 2)), w))
   \<and> get_idisp demo_collab (PyFloat 3 (- 2)) = None
   \<and> fst (PyMain_eval demo_collab (demo_pm\<lparr>pm_args := [''/'', ''4''], pm_arg_mode := Some ''error''\<rparr>)
             ''3 / 4'' [] demo_world) = Inr ()
   \<and> stdout (snd (PyMain_eval demo_collab
                     (demo_pm\<lparr>pm_args := [''/'', ''4''], pm_arg_mode := Some ''error''\<rparr>)
                     ''3 / 4'' [] demo_world)) = [''0.75'']
   \<and> seems_like_filename (demo_collab\<lparr>file_exists := (\<lambda>s. s = ''3'')\<rparr>) ''3''
   \<and> PyMain_run_action (demo_collab\<lparr>file_exists := (\<lambda>s. s = ''3'')\<rparr>) demo_pm =
       Inr ([DoExecfile ''3'' [''/'', ''4'']], demo_pm\<lparr>pm_args := [''/'', ''4'']\<rparr>)"
proof -
  have a: "pm_args demo_pm = [''3'', ''/'', ''4'']" "pm_arg_mode demo_pm \<noteq> Some ''string''"
          "pm_output_mode demo_pm = None"
    by (simp_all add: demo_pm_def)
  have b: "\<not> seems_like_filename demo_collab ''3''" "parsable demo_collab ''3 / 4''"
          "seems_like_filename (demo_collab\<lparr>file_exists := (\<lambda>s. s = ''3'')\<rparr>) ''3''"
    by code_simp+
  have c: "allocated_argv demo_world" "\<forall>w. auto_import demo_collab ''3 / 4'' w = (True, w)"
          "\<forall>w. auto_eval demo_collab ''3 / 4'' None w = (Inr (PyFloat 3 (- 2)), w)"
          "get_idisp demo_collab (PyFloat 3 (- 2)) = None"
          "stdout demo_world = []" "pformat demo_collab (PyFloat 3 (- 2)) = ''0.75''"
    by (simp_all add: allocated_argv_def demo_world_def demo_collab_def demo_eval_def)
  show ?thesis
    using run_action_calculator [OF a(1,2), of demo_collab demo_world]
          run_action_calculator [OF a(1,2), of "demo_collab\<lparr>file_exists := (\<lambda>s. s = ''3'')\<rparr>" demo_world]
          a b c
    by simp
qed

section \<open>The scanning loop of the argument binder\<close>

lemma scan_option_step:
  assumes "is_option_token arg" and "is_identifier c (option_name arg)"
  shows "scan_args c argspec arg_mode (arg # rest) pos kw w =
     (case match_argname argspec (prefix2argname_of argspec) (option_name arg) (option_equalsign arg) of
        Inl e \<Rightarrow> (Inl e, w)
      | Inr name \<Rightarrow>
          if option_value arg = [] then
            (case rest of
               [] \<Rightarrow> (Inl (ParseError (''Missing argument to '' @ arg)), w)
             | val' # rest' \<Rightarrow>
                 if py_startswith val' ''--'' then
                   (Inl (ParseError (''Missing argument to '' @ arg @ ''.  ''
                      @ ''If you really want to use '' @ py_repr c (PyStr val')
                      @ '' as the argument to '' @ arg @ '', ''
                      @ ''then use '' @ arg @ ''='' @ val' @ ''.'')), w)
                 else scan_args c argspec arg_mode rest' pos (AList.update name val' kw) w)
          else scan_args c argspec arg_mode rest pos (AList.update name (option_value arg) kw) w)"
proof -
  obtain n e v where p: "py_partition CHR ''='' (option_body arg) = (n, e, v)"
    by (metis prod_cases3)
  from assms(2) have "is_identifier c (py_replace_char CHR ''-'' CHR ''_'' n)"
    by (simp add: option_name_def p)
  with assms(1) show ?thesis
    unfolding option_name_def option_equalsign_def option_value_def p fst_conv snd_conv
    by (simp add: is_option_token_def p)
qed

declare scan_args.simps [simp del]

lemma scan_option_with_value:
  assumes "resolves_to c argspec arg name" and "option_value arg \<noteq> []"
  shows "scan_args c argspec arg_mode (arg # rest) pos kw w =
           scan_args c argspec arg_mode rest pos (AList.update name (option_value arg) kw) w"
  using assms scan_option_step [of arg c argspec arg_mode rest pos kw w]
  by (simp add: resolves_to_def)

lemma scan_positional_step:
  "is_positional_token a \<Longrightarrow>
   scan_args c argspec arg_mode (a # rest) pos kw w = scan_args c argspec arg_mode rest (pos @ [a]) kw w"
  by (auto simp: is_positional_token_def scan_args.simps py_startswith_def)

lemma scan_positionals:
  "list_all is_positional_token ps \<Longrightarrow>
   scan_args c argspec arg_mode (ps @ rest) pos kw w = scan_args c argspec arg_mode rest (pos @ ps) kw w"
  by (induction ps arbitrary: pos) (simp_all add: scan_positional_step)

text \<open>
  Claim C5, as amended. A keyword option given again is no error: when an option with
  a value is followed, after positional tokens only, by another option with a value
  that stands for the same keyword argument, the scanning loop and with it the whole
  binder do what they do on the tokens without the earlier option. The later value
  replaces the earlier one.
\<close>

theorem repeated_option_last_wins:
  assumes "resolves_to c argspec a name" and "option_value a \<noteq> []"
      and "resolves_to c argspec b name" and "option_value b \<noteq> []"
      and "list_all is_positional_token ps"
  shows "scan_args c argspec arg_mode (a # ps @ b # rest) pos kw w =
           scan_args c argspec arg_mode (ps @ b # rest) pos kw w
         \<and> parse_auto_apply_args c argspec (a # ps @ b # rest) arg_mode w =
             parse_auto_apply_args c argspec (ps @ b # rest) arg_mode w"
proof -
  have "scan_args c argspec arg_mode (a # ps @ b # rest) pos kw w =
           scan_args c argspec arg_mode (ps @ b # rest) pos kw w" for pos kw
    by (simp add: scan_option_with_value [OF assms(1,2)] scan_option_with_value [OF assms(3,4)]
          scan_positionals [OF assms(5)])
  then show ?thesis by (simp add: parse_auto_apply_args_def)
qed

theorem repeated_option_last_wins_witness:
  "resolves_to demo_collab \<lparr>args = [''x'', ''y''], varargs = None, keywords_name = None, defaults = None\<rparr>
     ''--y=1'' ''y''
   \<and> option_value ''--y=1'' \<noteq> []
   \<and> resolves_to demo_collab \<lparr>args = [''x'', ''y''], varargs = None, keywords_name = None, defaults = None\<rparr>
       ''-y=2'' ''y''
   \<and> option_value ''-y=2'' \<noteq> []
   \<and> list_all is_positional_token [''7'']
   \<and> parse_auto_apply_args demo_collab
         \<lparr>args = [''x'', ''y''], varargs = None, keywords_name = None, defaults = None\<rparr>
         [''--y=1'', ''7'', ''-y=2''] ''auto'' demo_world
       = parse_auto_apply_args demo_collab
           \<lparr>args = [''x'', ''y''], varargs = None, keywords_name = None, defaults = None\<rparr>
           [''7'', ''-y=2''] ''auto'' demo_world
   \<and> fst (parse_auto_apply_args demo_collab
         \<lparr>args = [''x'', ''y''], varargs = None, keywords_name = None, defaults = None\<rparr>
         [''7'', ''-y=2''] ''auto'' demo_world) = Inr ([PyInt 7, PyInt 2], [])"
proof -
  let ?spec = "\<lparr>args = [''x'', ''y''], varargs = None, keywords_name = None, defaults = None\<rparr>"
  have a: "resolves_to demo_collab ?spec ''--y=1'' ''y''" "option_value ''--y=1'' \<noteq> []"
    by code_simp+
  have b: "resolves_to demo_collab ?spec ''-y=2'' ''y''" "option_value ''-y=2'' \<noteq> []"
    by code_simp+
  have p: "list_all is_positional_token [''7'']"
    by code_simp
  have r: "fst (parse_auto_apply_args demo_collab ?spec [''7'', ''-y=2''] ''auto'' demo_world)
             = Inr ([PyInt 7, PyInt 2], [])"
    by code_simp
  show ?thesis
    using repeated_option_last_wins [OF a b p, where rest = "[]" and arg_mode = "''auto''"
            and w = demo_world] a b p r
    by simp
qed

text \<open>
  The claim C5 as it stands fails: \<^verbatim>\<open>--x=1 --x=2\<close> for \<^verbatim>\<open>f(x)\<close> is accepted, and \<^verbatim>\<open>x\<close>
  is bound to the value of the last occurrence.
\<close>

theorem repeated_option_counterexample:
  "fst (parse_auto_apply_args demo_collab demo_argspec [''--x=1'', ''--x=2''] ''auto'' demo_world)
     = Inr ([PyInt 2], [])"
  by code_simp

lemma distinct_prefixes: "distinct (prefixes s)"
proof -
  have "inj_on (\<lambda>n. take n s) (set [1..<Suc (length s)])"
  proof (rule inj_onI)
    fix n m assume "n \<in> set [1..<Suc (length s)]" "m \<in> set [1..<Suc (length s)]"
      and e: "take n s = take m s"
    then have "n \<le> length s" "m \<le> length s" by auto
    with e show "n = m" by (metis length_take min.absorb2)
  qed
  then show ?thesis by (simp add: prefixes_def distinct_map)
qed

lemma in_prefixes_iff: "p \<in> set (prefixes a) \<longleftrightarrow> p \<noteq> [] \<and> py_startswith a p"
proof
  assume "p \<in> set (prefixes a)"
  then obtain n where n: "1 \<le> n" "n \<le> length a" "p = take n a"
    by (auto simp: prefixes_def)
  then show "p \<noteq> [] \<and> py_startswith a p"
    by (auto simp: py_startswith_def min_def)
next
  assume h: "p \<noteq> [] \<and> py_startswith a p"
  then have t: "take (length p) a = p" by (simp add: py_startswith_def)
  from arg_cong [OF t, of length] have "length p \<le> length a" by simp
  moreover from h have "1 \<le> length p" by (cases p) auto
  ultimately have "length p \<in> set [1..<Suc (length a)]" by auto
  then have "take (length p) a \<in> set (prefixes a)"
    unfolding prefixes_def by (metis (no_types, lifting) image_eqI set_map)
  with t show "p \<in> set (prefixes a)" by simp
qed

lemma lookup_list_empty [simp]: "lookup_list Map.empty q = []"
  by (simp add: lookup_list_def)

lemma lookup_setdefault_append:
  "lookup_list (setdefault_append d k v) q = lookup_list d q @ (if q = k then [v] else [])"
  by (simp add: lookup_list_def setdefault_append_def)

lemma lookup_fold_prefixes:
  "distinct ps \<Longrightarrow>
   lookup_list (fold (\<lambda>prefix d'. setdefault_append d' prefix a) ps d) q
     = lookup_list d q @ (if q \<in> set ps then [a] else [])"
  by (induction ps arbitrary: d) (auto simp: lookup_setdefault_append)

lemma lookup_fold_args:
  "lookup_list (fold (\<lambda>argname d. fold (\<lambda>prefix d'. setdefault_append d' prefix argname) (prefixes argname) d) as d0) q
     = lookup_list d0 q @ filter (\<lambda>a. q \<in> set (prefixes a)) as"
  by (induction as arbitrary: d0) (simp_all add: lookup_fold_prefixes distinct_prefixes)

lemma lookup_prefix2argname:
  "lookup_list (prefix2argname_of argspec) name = candidates argspec name"
  by (simp add: prefix2argname_of_def lookup_fold_args candidates_def in_prefixes_iff)

lemma match_argname_candidates:
  "match_argname argspec (prefix2argname_of argspec) name equalsign =
     (if length (candidates argspec name) = 1 then Inr (hd (candidates argspec name))
      else if length (candidates argspec name) = 0 then
        (if equalsign = [] \<and> name \<in> set [''help'', ''h''] then Inl ParseInterruptedWantHelp
         else if equalsign = [] \<and> name \<in> set [''source''] then Inl ParseInterruptedWantSource
         else if \<not> truthy_name (keywords_name argspec) then
           Inl (ParseError (''Unknown option name '' @ name))
         else Inr name)
      else Inl (ParseError (''Ambiguous '' @ name @ '': could mean one of: ''
                  @ py_join '', '' (map (\<lambda>s. ''--'' @ s) (candidates argspec name)))))"
  unfolding match_argname_def lookup_prefix2argname [symmetric] lookup_list_def
  by (simp add: Let_def)

lemma filter_singleton:
  "distinct xs \<Longrightarrow> x \<in> set xs \<Longrightarrow> P x \<Longrightarrow> (\<forall>a\<in>set xs. a \<noteq> x \<longrightarrow> \<not> P a) \<Longrightarrow> filter P xs = [x]"
proof (induction xs)
  case Nil
  then show ?case by simp
next
  case (Cons y ys)
  show ?case
  proof (cases "y = x")
    case True
    with Cons.prems have "\<forall>a\<in>set ys. \<not> P a" by auto
    then have "filter P ys = []" by (simp add: filter_empty_conv)
    with True Cons.prems show ?thesis by simp
  next
    case False
    with Cons show ?thesis by auto
  qed
qed

lemma filter_two:
  assumes "x \<in> set xs" "a \<in> set xs" "a \<noteq> x" "P x" "P a"
  shows "2 \<le> length (filter P xs)"
proof -
  have "{x, a} \<subseteq> set (filter P xs)" using assms by simp
  then have "card {x, a} \<le> card (set (filter P xs))" by (simp add: card_mono)
  also have "\<dots> \<le> length (filter P xs)" by (rule card_length)
  finally show ?thesis using assms(3) by simp
qed

text \<open>
  Claim C4, as amended. For an option token whose name is an identifier: if the name is
  a prefix of exactly one declared parameter name, the option stands for that
  parameter, whether its value follows \<^verbatim>\<open>=\<close> or is the next token, and the scan goes
  on with that value recorded for the parameter; if it is a prefix of two or more declared parameter names, a name being
  a prefix of itself, the scan and the binder fail with the ambiguity error that
  lists those names in the order of declaration. A name equal to a declared parameter
  name is the first case when no other declared name starts with it, and the second
  case when another declared name does: there the exact match is ambiguous too.
\<close>

theorem option_name_resolution:
  assumes "is_option_token arg" and "is_identifier c (option_name arg)"
  shows
   "(candidates argspec (option_name arg) = [name] \<longrightarrow>
       resolves_to c argspec arg name
       \<and> scan_args c argspec arg_mode (arg # rest) pos kw w =
         (if option_value arg \<noteq> [] then
            scan_args c argspec arg_mode rest pos (AList.update name (option_value arg) kw) w
          else
            (case rest of
               [] \<Rightarrow> (Inl (ParseError (''Missing argument to '' @ arg)), w)
             | val # rest' \<Rightarrow>
                 if py_startswith val ''--'' then
                   (Inl (ParseError (''Missing argument to '' @ arg @ ''.  ''
                      @ ''If you really want to use '' @ py_repr c (PyStr val)
                      @ '' as the argument to '' @ arg @ '', ''
                      @ ''then use '' @ arg @ ''='' @ val @ ''.'')), w)
                 else scan_args c argspec arg_mode rest' pos (AList.update name val kw) w)))
    \<and> (2 \<le> length (candidates argspec (option_name arg)) \<longrightarrow>
       scan_args c argspec arg_mode (arg # rest) pos kw w =
         (Inl (ParseError (''Ambiguous '' @ option_name arg @ '': could mean one of: ''
            @ py_join '', '' (map (\<lambda>s. ''--'' @ s) (candidates argspec (option_name arg))))), w)
       \<and> parse_auto_apply_args c argspec (arg # rest) arg_mode w =
         (Inl (ParseError (''Ambiguous '' @ option_name arg @ '': could mean one of: ''
            @ py_join '', '' (map (\<lambda>s. ''--'' @ s) (candidates argspec (option_name arg))))), w))
    \<and> (option_name arg \<noteq> [] \<and> option_name arg \<in> set (args argspec) \<and> distinct (args argspec)
        \<and> (\<forall>a\<in>set (args argspec). a \<noteq> option_name arg \<longrightarrow> \<not> py_startswith a (option_name arg)) \<longrightarrow>
       candidates argspec (option_name arg) = [option_name arg])
    \<and> (option_name arg \<noteq> [] \<and> option_name arg \<in> set (args argspec)
        \<and> (\<exists>a\<in>set (args argspec). a \<noteq> option_name arg \<and> py_startswith a (option_name arg)) \<longrightarrow>
       2 \<le> length (candidates argspec (option_name arg)))"
proof (intro conjI impI)
  assume one: "candidates argspec (option_name arg) = [name]"
  then have m: "match_argname argspec (prefix2argname_of argspec) (option_name arg) (option_equalsign arg)
      = Inr name"
    by (simp add: match_argname_candidates)
  with assms show "resolves_to c argspec arg name"
    by (simp add: resolves_to_def)
  show "scan_args c argspec arg_mode (arg # rest) pos kw w =
         (if option_value arg \<noteq> [] then
            scan_args c argspec arg_mode rest pos (AList.update name (option_value arg) kw) w
          else
            (case rest of
               [] \<Rightarrow> (Inl (ParseError (''Missing argument to '' @ arg)), w)
             | val # rest' \<Rightarrow>
                 if py_startswith val ''--'' then
                   (Inl (ParseError (''Missing argument to '' @ arg @ ''.  ''
                      @ ''If you really want to use '' @ py_repr c (PyStr val)
                      @ '' as the argument to '' @ arg @ '', ''
                      @ ''then use '' @ arg @ ''='' @ val @ ''.'')), w)
                 else scan_args c argspec arg_mode rest' pos (AList.update name val kw) w))"
    by (simp only: scan_option_step [OF assms] m sum.case) (simp split: list.split)
next
  assume two: "2 \<le> length (candidates argspec (option_name arg))"
  then have "length (candidates argspec (option_name arg)) \<noteq> 1"
      "length (candidates argspec (option_name arg)) \<noteq> 0"
    by (simp, cases "candidates argspec (option_name arg)") simp_all
  then have m: "match_argname argspec (prefix2argname_of argspec) (option_name arg) (option_equalsign arg)
      = Inl (ParseError (''Ambiguous '' @ option_name arg @ '': could mean one of: ''
            @ py_join '', '' (map (\<lambda>s. ''--'' @ s) (candidates argspec (option_name arg)))))"
    by (simp only: match_argname_candidates if_False)
  show amb: "scan_args c argspec arg_mode (arg # rest) pos kw w =
         (Inl (ParseError (''Ambiguous '' @ option_name arg @ '': could mean one of: ''
            @ py_join '', '' (map (\<lambda>s. ''--'' @ s) (candidates argspec (option_name arg))))), w)"
    for pos kw
    by (simp only: scan_option_step [OF assms] m sum.case)
  show "parse_auto_apply_args c argspec (arg # rest) arg_mode w =
         (Inl (ParseError (''Ambiguous '' @ option_name arg @ '': could mean one of: ''
            @ py_join '', '' (map (\<lambda>s. ''--'' @ s) (candidates argspec (option_name arg))))), w)"
    by (simp add: parse_auto_apply_args_def amb)
next
  assume "option_name arg \<noteq> [] \<and> option_name arg \<in> set (args argspec) \<and> distinct (args argspec)
        \<and> (\<forall>a\<in>set (args argspec). a \<noteq> option_name arg \<longrightarrow> \<not> py_startswith a (option_name arg))"
  then show "candidates argspec (option_name arg) = [option_name arg]"
    unfolding candidates_def
    by (intro filter_singleton) (auto simp: py_startswith_def)
next
  assume "option_name arg \<noteq> [] \<and> option_name arg \<in> set (args argspec)
        \<and> (\<exists>a\<in>set (args argspec). a \<noteq> option_name arg \<and> py_startswith a (option_name arg))"
  then obtain a where "option_name arg \<noteq> []" "option_name arg \<in> set (args argspec)"
      "a \<in> set (args argspec)" "a \<noteq> option_name arg" "py_startswith a (option_name arg)"
    by blast
  then show "2 \<le> length (candidates argspec (option_name arg))"
    unfolding candidates_def
    by (intro filter_two [of "option_name arg" _ a]) (auto simp: py_startswith_def)
qed

theorem option_name_resolution_witness:
  "is_option_token ''--foobar=1'' \<and> is_identifier demo_collab (option_name ''--foobar=1'')
   \<and> option_name ''--foobar=1'' \<noteq> [] \<and> option_name ''--foobar=1'' \<in> set (args demo_foo_spec)
   \<and> distinct (args demo_foo_spec)
   \<and> \<not> py_startswith ''foobaz'' (option_name ''--foobar=1'')
   \<and> candidates demo_foo_spec (option_name ''--foobar=1'') = [''foobar'']
   \<and> option_value ''--foobar=1'' \<noteq> []
   \<and> scan_args demo_collab demo_foo_spec ''auto'' [''--foobar=1''] [] [] demo_world
       = scan_args demo_collab demo_foo_spec ''auto'' [] [] [(''foobar'', ''1'')] demo_world
   \<and> resolves_to demo_collab demo_foo_spec ''--foobar=1'' ''foobar''
   \<and> is_option_token ''-m'' \<and> is_identifier demo_collab (option_name ''-m'')
   \<and> candidates demo_ymd_spec (option_name ''-m'') = [''month''] \<and> option_value ''-m'' = []
   \<and> resolves_to demo_collab demo_ymd_spec ''-m'' ''month''
   \<and> scan_args demo_collab demo_ymd_spec ''auto'' [''-m'', ''7''] [] [] demo_world
       = scan_args demo_collab demo_ymd_spec ''auto'' [] [] [(''month'', ''7'')] demo_world
   \<and> fst (parse_auto_apply_args demo_collab demo_ymd_spec
             [''-m'', ''7'', ''-d'', ''16'', ''-y'', ''2014''] ''auto'' demo_world)
       = Inr ([PyInt 2014, PyInt 7, PyInt 16], [])
   \<and> is_option_token ''--foo=1'' \<and> is_identifier demo_collab (option_name ''--foo=1'')
   \<and> 2 \<le> length (candidates demo_foo_spec (option_name ''--foo=1''))
   \<and> parse_auto_apply_args demo_collab demo_foo_spec [''--foo=1''] ''auto'' demo_world
       = (Inl (ParseError ''Ambiguous foo: could mean one of: --foobar, --foobaz''), demo_world)
   \<and> is_option_token ''--fooba=1'' \<and> is_identifier demo_collab (option_name ''--fooba=1'')
   \<and> 2 \<le> length (candidates demo_foo_spec (option_name ''--fooba=1''))
   \<and> parse_auto_apply_args demo_collab demo_foo_spec [''--fooba=1''] ''auto'' demo_world
       = (Inl (ParseError ''Ambiguous fooba: could mean one of: --foobar, --foobaz''), demo_world)
   \<and> option_name ''--foo=1'' \<in> set (args demo_exact_spec)
   \<and> ''foobar'' \<in> set (args demo_exact_spec) \<and> ''foobar'' \<noteq> option_name ''--foo=1''
   \<and> py_startswith ''foobar'' (option_name ''--foo=1'')
   \<and> 2 \<le> length (candidates demo_exact_spec (option_name ''--foo=1''))
   \<and> parse_auto_apply_args demo_collab demo_exact_spec [''--foo=1''] ''auto'' demo_world
       = (Inl (ParseError ''Ambiguous foo: could mean one of: --foo, --foobar''), demo_world)"
proof -
  have t1: "is_option_token ''--foobar=1''" "is_identifier demo_collab (option_name ''--foobar=1'')"
    by code_simp+
  have t2: "is_option_token ''--foo=1''" "is_identifier demo_collab (option_name ''--foo=1'')"
    by code_simp+
  have t3: "is_option_token ''--fooba=1''" "is_identifier demo_collab (option_name ''--fooba=1'')"
    by code_simp+
  have h1: "option_name ''--foobar=1'' \<noteq> []" "option_name ''--foobar=1'' \<in> set (args demo_foo_spec)"
      "distinct (args demo_foo_spec)"
      "\<forall>a\<in>set (args demo_foo_spec). a \<noteq> option_name ''--foobar=1''
         \<longrightarrow> \<not> py_startswith a (option_name ''--foobar=1'')"
      "option_value ''--foobar=1'' \<noteq> []"
    by code_simp+
  have h3: "option_name ''--foo=1'' \<noteq> []" "option_name ''--foo=1'' \<in> set (args demo_exact_spec)"
      "\<exists>a\<in>set (args demo_exact_spec). a \<noteq> option_name ''--foo=1''
         \<and> py_startswith a (option_name ''--foo=1'')"
    by code_simp+
  have v: "option_name ''--foobar=1'' = ''foobar''" "option_value ''--foobar=1'' = ''1''"
      "option_name ''--foo=1'' = ''foo''" "option_name ''--fooba=1'' = ''fooba''"
      "candidates demo_foo_spec ''foo'' = [''foobar'', ''foobaz'']"
      "candidates demo_foo_spec ''fooba'' = [''foobar'', ''foobaz'']"
      "candidates demo_exact_spec ''foo'' = [''foo'', ''foobar'']"
    by code_simp+
  note r1 = option_name_resolution [OF t1, where argspec = demo_foo_spec and name = "''foobar''"
              and arg_mode = "''auto''" and rest = "[]" and pos = "[]" and kw = "[]" and w = demo_world]
  note r2 = option_name_resolution [OF t2, where argspec = demo_foo_spec
              and arg_mode = "''auto''" and rest = "[]" and w = demo_world]
  note r3 = option_name_resolution [OF t3, where argspec = demo_foo_spec
              and arg_mode = "''auto''" and rest = "[]" and w = demo_world]
  note r4 = option_name_resolution [OF t2, where argspec = demo_exact_spec
              and arg_mode = "''auto''" and rest = "[]" and w = demo_world]
  from r1 h1 have c1: "candidates demo_foo_spec (option_name ''--foobar=1'') = [''foobar'']"
    by (simp add: v)
  with r1 h1 have s1: "scan_args demo_collab demo_foo_spec ''auto'' [''--foobar=1''] [] [] demo_world
       = scan_args demo_collab demo_foo_spec ''auto'' [] [] [(''foobar'', ''1'')] demo_world"
    by (simp add: v)
  have l2: "2 \<le> length (candidates demo_foo_spec (option_name ''--foo=1''))"
           "2 \<le> length (candidates demo_foo_spec (option_name ''--fooba=1''))"
    by (simp_all add: v)
  from r4 h3 have l4: "2 \<le> length (candidates demo_exact_spec (option_name ''--foo=1''))"
    by blast
  from r2 l2 have p2: "parse_auto_apply_args demo_collab demo_foo_spec [''--foo=1''] ''auto'' demo_world
       = (Inl (ParseError ''Ambiguous foo: could mean one of: --foobar, --foobaz''), demo_world)"
    by (simp add: v)
  from r3 l2 have p3: "parse_auto_apply_args demo_collab demo_foo_spec [''--fooba=1''] ''auto'' demo_world
       = (Inl (ParseError ''Ambiguous fooba: could mean one of: --foobar, --foobaz''), demo_world)"
    by (simp add: v)
  from r4 l4 have p4: "parse_auto_apply_args demo_collab demo_exact_spec [''--foo=1''] ''auto'' demo_world
       = (Inl (ParseError ''Ambiguous foo: could mean one of: --foo, --foobar''), demo_world)"
    by (simp add: v)
  have t5: "is_option_token ''-m''" "is_identifier demo_collab (option_name ''-m'')"
    by code_simp+
  have v5: "candidates demo_ymd_spec (option_name ''-m'') = [''month'']" "option_value ''-m'' = []"
      "\<not> py_startswith ''7'' ''--''"
      "fst (parse_auto_apply_args demo_collab demo_ymd_spec
             [''-m'', ''7'', ''-d'', ''16'', ''-y'', ''2014''] ''auto'' demo_world)
         = Inr ([PyInt 2014, PyInt 7, PyInt 16], [])"
    by code_simp+
  note r5 = option_name_resolution [OF t5, where argspec = demo_ymd_spec and name = "''month''"
              and arg_mode = "''auto''" and rest = "[''7'']" and pos = "[]" and kw = "[]"
              and w = demo_world]
  from r5 v5 have s5: "resolves_to demo_collab demo_ymd_spec ''-m'' ''month''"
      "scan_args demo_collab demo_ymd_spec ''auto'' [''-m'', ''7''] [] [] demo_world
       = scan_args demo_collab demo_ymd_spec ''auto'' [] [] [(''month'', ''7'')] demo_world"
    by simp_all
  from r1 c1 have q1: "resolves_to demo_collab demo_foo_spec ''--foobar=1'' ''foobar''"
    by simp
  have e: "\<not> py_startswith ''foobaz'' (option_name ''--foobar=1'')"
      "''foobar'' \<in> set (args demo_exact_spec)" "''foobar'' \<noteq> option_name ''--foo=1''"
      "py_startswith ''foobar'' (option_name ''--foo=1'')"
    by code_simp+
  show ?thesis
    using t1 t2 t3 t5 h1 h3 c1 s1 q1 v5 s5 l2 l4 p2 p3 p4 e by simp
qed

text \<open>
  The claim C4 as it stands fails: for \<^verbatim>\<open>f(foo, foobar)\<close> the option \<^verbatim>\<open>--foo=1\<close>, whose
  name is exactly a parameter name, is rejected as ambiguous.
\<close>

theorem exact_option_name_counterexample:
  "option_name ''--foo=1'' = ''foo'' \<and> ''foo'' \<in> set (args demo_exact_spec)
   \<and> fst (parse_auto_apply_args demo_collab demo_exact_spec [''--foo=1''] ''auto'' demo_world)
       = Inl (ParseError ''Ambiguous foo: could mean one of: --foo, --foobar'')"
  by code_simp

section \<open>The binding of the declared parameters\<close>

declare bind_declared.simps [simp del]

lemma bind_declared_Cons:
  "bind_declared c arg_mode d pos i (a # rest) kw parsed w = (Inr (p, kw'), w') \<Longrightarrow>
   (i < length pos \<and> map_of kw a = None
      \<and> (\<exists>v w1. parse_value_or_string c (PyStr (pos ! i)) arg_mode w = (Inr v, w1)
            \<and> bind_declared c arg_mode d pos (Suc i) rest kw (parsed @ [v]) w1 = (Inr (p, kw'), w')))
   \<or> (\<not> i < length pos \<and> map_of kw a = None
      \<and> (\<exists>v. d a = Some v
            \<and> bind_declared c arg_mode d pos (Suc i) rest kw (parsed @ [v]) w = (Inr (p, kw'), w')))
   \<or> (\<not> i < length pos
      \<and> (\<exists>u v w1. map_of kw a = Some u
            \<and> parse_value_or_string c (PyStr u) arg_mode w = (Inr v, w1)
            \<and> bind_declared c arg_mode d pos (Suc i) rest (AList.delete a kw) (parsed @ [v]) w1
                 = (Inr (p, kw'), w')))"
  by (auto simp: bind_declared.simps split: if_splits option.splits prod.splits sum.splits)

lemma bind_declared_accepts:
  "bind_declared c arg_mode d pos i xs kw parsed w = (Inr (p, kw'), w') \<Longrightarrow>
   length p = length parsed + length xs
   \<and> (\<forall>a. map_of kw a = None \<longrightarrow> map_of kw' a = None)
   \<and> (\<forall>a\<in>set xs. map_of kw' a = None)
   \<and> (\<forall>j<length xs.
         (i + j < length pos \<longrightarrow> map_of kw (xs ! j) = None)
       \<and> (\<not> i + j < length pos \<longrightarrow> map_of kw (xs ! j) \<noteq> None \<or> d (xs ! j) \<noteq> None))"
proof (induction xs arbitrary: i kw parsed w)
  case Nil
  then show ?case by (simp add: bind_declared.simps)
next
  case (Cons a rest)
  from bind_declared_Cons [OF Cons.prems]
  consider
    (positional) v w1 where "i < length pos" "map_of kw a = None"
      "bind_declared c arg_mode d pos (Suc i) rest kw (parsed @ [v]) w1 = (Inr (p, kw'), w')"
  | (default) v where "\<not> i < length pos" "map_of kw a = None" "d a = Some v"
      "bind_declared c arg_mode d pos (Suc i) rest kw (parsed @ [v]) w = (Inr (p, kw'), w')"
  | (keyword) u v w1 where "\<not> i < length pos" "map_of kw a = Some u"
      "bind_declared c arg_mode d pos (Suc i) rest (AList.delete a kw) (parsed @ [v]) w1
         = (Inr (p, kw'), w')"
    by blast
  then show ?case
  proof cases
    case positional
    note ih = Cons.IH [OF positional(3)]
    show ?thesis
      using ih positional(1,2) by (auto simp: nth_Cons split: nat.splits)
  next
    case default
    note ih = Cons.IH [OF default(4)]
    show ?thesis
      using ih default(1,2,3) by (auto simp: nth_Cons split: nat.splits)
  next
    case keyword
    note ih = Cons.IH [OF keyword(3)]
    have del: "map_of (AList.delete a kw) a = None"
      "\<And>b. map_of kw b = None \<Longrightarrow> map_of (AList.delete a kw) b = None"
      "\<And>b. map_of (AList.delete a kw) b \<noteq> None \<Longrightarrow> map_of kw b \<noteq> None"
      by (auto simp: AList.delete_conv' split: if_splits)
    show ?thesis
      using ih keyword(1,2) del by (auto simp: nth_Cons split: nat.splits)
  qed
qed

lemma bind_declared_append:
  "bind_declared c arg_mode d pos i (xs @ ys) kw parsed w =
     (case bind_declared c arg_mode d pos i xs kw parsed w of
        (Inl e, w') \<Rightarrow> (Inl e, w')
      | (Inr (p, kw'), w') \<Rightarrow> bind_declared c arg_mode d pos (i + length xs) ys kw' p w')"
  by (induction xs arbitrary: i kw parsed w)
     (auto simp: bind_declared.simps split: option.splits prod.splits sum.splits)

lemma bind_declared_positional_keeps:
  "bind_declared c arg_mode d pos i xs kw parsed w = (Inr (p, kw'), w') \<Longrightarrow>
   i + length xs \<le> length pos \<Longrightarrow> kw' = kw"
proof (induction xs arbitrary: i parsed w)
  case Nil
  then show ?case by (simp add: bind_declared.simps)
next
  case (Cons a rest)
  from bind_declared_Cons [OF Cons.prems(1)] Cons.prems(2)
  obtain v w1 where "bind_declared c arg_mode d pos (Suc i) rest kw (parsed @ [v]) w1 = (Inr (p, kw'), w')"
    by auto
  from Cons.IH [OF this] Cons.prems(2) show ?case by simp
qed

lemma parse_values_length:
  "parse_values c arg_mode us acc w = (Inr r, w') \<Longrightarrow> length acc \<le> length r"
proof (induction us arbitrary: acc w)
  case Nil
  then show ?case by simp
next
  case (Cons u us)
  then show ?case
    by (fastforce split: prod.splits sum.splits)
qed

lemma parse_kwargs_keys:
  "parse_kwargs c arg_mode al acc w = (Inr r, w') \<Longrightarrow> fst ` set r \<subseteq> fst ` set al \<union> fst ` set acc"
proof (induction al arbitrary: acc w)
  case Nil
  then show ?case by simp
next
  case (Cons x al)
  obtain k u where x: "x = (k, u)" by (cases x)
  from Cons.prems obtain v w1 where
    "parse_kwargs c arg_mode al (AList.update k v acc) w1 = (Inr r, w')"
    by (auto simp: x split: prod.splits sum.splits if_splits)
  from Cons.IH [OF this] show ?case
    by (auto simp: x AList.dom_update)
qed

lemma bind_args_accepted:
  assumes "parse_auto_apply_args c argspec tokens arg_mode w = (Inr (parsed_args, parsed_kwargs), w')"
  shows "\<exists>pos kw w1. scan_args c argspec arg_mode tokens [] [] w = (Inr (pos, kw), w1)
        \<and> length (args argspec) \<le> length parsed_args
        \<and> (\<forall>j<length (args argspec).
              (j < length pos \<longrightarrow> map_of kw (args argspec ! j) = None)
            \<and> (\<not> j < length pos \<longrightarrow> map_of kw (args argspec ! j) \<noteq> None
                   \<or> argname2default_of argspec (args argspec ! j) \<noteq> None))
        \<and> fst ` set parsed_kwargs \<inter> set (args argspec) = {}"
proof -
  from assms obtain pos kw w1 where sc: "scan_args c argspec arg_mode tokens [] [] w = (Inr (pos, kw), w1)"
    by (auto simp: parse_auto_apply_args_def split: prod.splits sum.splits)
  from assms sc obtain p kw' w2 where bd:
    "bind_declared c arg_mode (argname2default_of argspec) pos 0 (args argspec) kw [] w1
       = (Inr (p, kw'), w2)"
    by (auto simp: parse_auto_apply_args_def split: prod.splits sum.splits)
  from assms sc bd obtain w3 where
    pv: "(if length pos > length (args argspec) then
            (if truthy_name (varargs argspec) then
               parse_values c arg_mode (drop (length (args argspec)) pos) p w2
             else (Inl (ParseError (too_many_message argspec pos)), w2))
          else (Inr p, w2)) = (Inr parsed_args, w3)"
    and pk: "parse_kwargs c arg_mode (sort_key fst kw') [] w3 = (Inr parsed_kwargs, w')"
    by (auto simp: parse_auto_apply_args_def split: prod.splits sum.splits)
  note acc = bind_declared_accepts [OF bd]
  from pv have "length p \<le> length parsed_args"
    by (auto split: if_splits dest: parse_values_length)
  with acc have len: "length (args argspec) \<le> length parsed_args" by simp
  from parse_kwargs_keys [OF pk] have "fst ` set parsed_kwargs \<subseteq> fst ` set kw'" by simp
  moreover from acc have "\<forall>a\<in>set (args argspec). a \<notin> fst ` set kw'"
    by (simp add: map_of_eq_None_iff)
  ultimately have dis: "fst ` set parsed_kwargs \<inter> set (args argspec) = {}" by blast
  from sc len dis acc show ?thesis by auto
qed

lemma bind_args_rejects_kind:
  assumes sc: "scan_args c argspec arg_mode tokens [] [] w = (Inr (pos, kw), w1)"
      and j: "j < length (args argspec)"
      and before: "bind_declared c arg_mode (argname2default_of argspec) pos 0
                     (take j (args argspec)) kw [] w1 = (Inr (p, kw_j), w_j)"
  shows "(j < length pos \<and> map_of kw (args argspec ! j) = Some v \<longrightarrow>
           parse_auto_apply_args c argspec tokens arg_mode w =
             (Inl (ParseError (args argspec ! j @ '' specified both as positional argument (''
                     @ pos ! j @ '') and keyword argument ('' @ v @ '')'')), w_j))
       \<and> (\<not> j < length pos \<and> map_of kw (args argspec ! j) = None
            \<and> argname2default_of argspec (args argspec ! j) = None \<longrightarrow>
           parse_auto_apply_args c argspec tokens arg_mode w =
             (Inl (ParseError (''missing required argument '' @ args argspec ! j)), w_j))"
proof -
  let ?as = "args argspec"
  have split: "?as = take j ?as @ (?as ! j) # drop (Suc j) ?as"
    using j by (simp add: id_take_nth_drop)
  have lt: "length (take j ?as) = j" using j by simp
  have bd: "bind_declared c arg_mode (argname2default_of argspec) pos 0 ?as kw [] w1
        = bind_declared c arg_mode (argname2default_of argspec) pos j
            ((?as ! j) # drop (Suc j) ?as) kw_j p w_j"
    using j by (subst split, subst bind_declared_append) (simp add: before min_def)
  show ?thesis
  proof (intro conjI impI)
    assume h: "j < length pos \<and> map_of kw (?as ! j) = Some v"
    then have "kw_j = kw"
      using bind_declared_positional_keeps [OF before] lt by simp
    with h have "bind_declared c arg_mode (argname2default_of argspec) pos 0 ?as kw [] w1
        = (Inl (ParseError (?as ! j @ '' specified both as positional argument (''
                     @ pos ! j @ '') and keyword argument ('' @ v @ '')'')), w_j)"
      by (simp add: bd bind_declared.simps)
    then show "parse_auto_apply_args c argspec tokens arg_mode w =
             (Inl (ParseError (?as ! j @ '' specified both as positional argument (''
                     @ pos ! j @ '') and keyword argument ('' @ v @ '')'')), w_j)"
      by (simp add: parse_auto_apply_args_def sc)
  next
    assume h: "\<not> j < length pos \<and> map_of kw (?as ! j) = None
            \<and> argname2default_of argspec (?as ! j) = None"
    then have "map_of kw_j (?as ! j) = None"
      using bind_declared_accepts [OF before] by simp
    with h have "bind_declared c arg_mode (argname2default_of argspec) pos 0 ?as kw [] w1
        = (Inl (ParseError (''missing required argument '' @ ?as ! j)), w_j)"
      by (simp add: bd bind_declared.simps)
    then show "parse_auto_apply_args c argspec tokens arg_mode w =
             (Inl (ParseError (''missing required argument '' @ ?as ! j)), w_j)"
      by (simp add: parse_auto_apply_args_def sc)
  qed
qed

lemma bind_args_rejects:
  assumes sc: "scan_args c argspec arg_mode tokens [] [] w = (Inr (pos, kw), w1)"
      and j: "j < length (args argspec)"
      and bad: "(j < length pos \<and> map_of kw (args argspec ! j) \<noteq> None)
              \<or> (\<not> j < length pos \<and> map_of kw (args argspec ! j) = None
                  \<and> argname2default_of argspec (args argspec ! j) = None)"
  shows "isl (fst (parse_auto_apply_args c argspec tokens arg_mode w))"
proof (rule ccontr)
  assume "\<not> isl (fst (parse_auto_apply_args c argspec tokens arg_mode w))"
  then obtain pa pk w' where
    "parse_auto_apply_args c argspec tokens arg_mode w = (Inr (pa, pk), w')"
    by (cases "parse_auto_apply_args c argspec tokens arg_mode w"; cases "fst (parse_auto_apply_args c argspec tokens arg_mode w)")
       auto
  from bind_args_accepted [OF this] sc j bad show False by auto
qed

text \<open>
  Claim C3. When \<^verbatim>\<open>_parse_auto_apply_args\<close> returns, every declared parameter has a
  value in the positional result, taken from the positional token at its index, and
  then no keyword was given for it, or else from its keyword or its default; the
  keyword result names no declared parameter. When the scan has found a positional
  token at the index of a parameter and a keyword for its name, or neither of them
  for a parameter without default, the binder fails; and when the parameters before
  that one bind without error, the failure is the \<^verbatim>\<open>ParseError\<close> that says the
  parameter is specified both ways, or that the required argument is missing.
\<close>

theorem bind_args_binding:
  "(parse_auto_apply_args c argspec tokens arg_mode w = (Inr (parsed_args, parsed_kwargs), w') \<longrightarrow>
      (\<exists>pos kw w1. scan_args c argspec arg_mode tokens [] [] w = (Inr (pos, kw), w1)
        \<and> length (args argspec) \<le> length parsed_args
        \<and> (\<forall>j<length (args argspec).
              (j < length pos \<longrightarrow> map_of kw (args argspec ! j) = None)
            \<and> (\<not> j < length pos \<longrightarrow> map_of kw (args argspec ! j) \<noteq> None
                   \<or> argname2default_of argspec (args argspec ! j) \<noteq> None))
        \<and> fst ` set parsed_kwargs \<inter> set (args argspec) = {}))
   \<and> (scan_args c argspec arg_mode tokens [] [] w = (Inr (pos, kw), w1) \<and> j < length (args argspec) \<longrightarrow>
        ((j < length pos \<and> map_of kw (args argspec ! j) \<noteq> None)
           \<or> (\<not> j < length pos \<and> map_of kw (args argspec ! j) = None
               \<and> argname2default_of argspec (args argspec ! j) = None) \<longrightarrow>
         isl (fst (parse_auto_apply_args c argspec tokens arg_mode w)))
      \<and> (bind_declared c arg_mode (argname2default_of argspec) pos 0
            (take j (args argspec)) kw [] w1 = (Inr (p, kw_j), w_j) \<longrightarrow>
          (j < length pos \<and> map_of kw (args argspec ! j) = Some v \<longrightarrow>
             parse_auto_apply_args c argspec tokens arg_mode w =
               (Inl (ParseError (args argspec ! j @ '' specified both as positional argument (''
                       @ pos ! j @ '') and keyword argument ('' @ v @ '')'')), w_j))
        \<and> (\<not> j < length pos \<and> map_of kw (args argspec ! j) = None
              \<and> argname2default_of argspec (args argspec ! j) = None \<longrightarrow>
             parse_auto_apply_args c argspec tokens arg_mode w =
               (Inl (ParseError (''missing required argument '' @ args argspec ! j)), w_j))))"
proof (intro conjI impI)
  assume "parse_auto_apply_args c argspec tokens arg_mode w = (Inr (parsed_args, parsed_kwargs), w')"
  then show "\<exists>pos kw w1. scan_args c argspec arg_mode tokens [] [] w = (Inr (pos, kw), w1)
        \<and> length (args argspec) \<le> length parsed_args
        \<and> (\<forall>j<length (args argspec).
              (j < length pos \<longrightarrow> map_of kw (args argspec ! j) = None)
            \<and> (\<not> j < length pos \<longrightarrow> map_of kw (args argspec ! j) \<noteq> None
                   \<or> argname2default_of argspec (args argspec ! j) \<noteq> None))
        \<and> fst ` set parsed_kwargs \<inter> set (args argspec) = {}"
    by (rule bind_args_accepted)
next
  assume "scan_args c argspec arg_mode tokens [] [] w = (Inr (pos, kw), w1) \<and> j < length (args argspec)"
    and "(j < length pos \<and> map_of kw (args argspec ! j) \<noteq> None)
           \<or> (\<not> j < length pos \<and> map_of kw (args argspec ! j) = None
               \<and> argname2default_of argspec (args argspec ! j) = None)"
  then show "isl (fst (parse_auto_apply_args c argspec tokens arg_mode w))"
    using bind_args_rejects [of c argspec arg_mode tokens w pos kw w1 j] by blast
next
  assume a: "scan_args c argspec arg_mode tokens [] [] w = (Inr (pos, kw), w1) \<and> j < length (args argspec)"
    and b: "bind_declared c arg_mode (argname2default_of argspec) pos 0
            (take j (args argspec)) kw [] w1 = (Inr (p, kw_j), w_j)"
  note k = bind_args_rejects_kind [OF conjunct1 [OF a] conjunct2 [OF a] b, of v]
  { assume "j < length pos \<and> map_of kw (args argspec ! j) = Some v"
    with k show "parse_auto_apply_args c argspec tokens arg_mode w =
               (Inl (ParseError (args argspec ! j @ '' specified both as positional argument (''
                       @ pos ! j @ '') and keyword argument ('' @ v @ '')'')), w_j)"
      by blast }
  { assume "\<not> j < length pos \<and> map_of kw (args argspec ! j) = None
              \<and> argname2default_of argspec (args argspec ! j) = None"
    with k show "parse_auto_apply_args c argspec tokens arg_mode w =
               (Inl (ParseError (''missing required argument '' @ args argspec ! j)), w_j)"
      by blast }
qed

theorem bind_args_binding_witness:
  "fst (parse_auto_apply_args demo_collab demo_ymd_spec [''--day=16'', ''--month=7'', ''--year=2014'']
          ''auto'' demo_world) = Inr ([PyInt 2014, PyInt 7, PyInt 16], [])
   \<and> length (args demo_ymd_spec) \<le> length [PyInt 2014, PyInt 7, PyInt 16]
   \<and> fst (scan_args demo_collab demo_argspec ''auto'' [''1'', ''--x=2''] [] [] demo_world)
       = Inr ([''1''], [(''x'', ''2'')])
   \<and> (0::nat) < length (args demo_argspec) \<and> (0::nat) < length [''1'']
   \<and> map_of [(''x'', ''2'')] (args demo_argspec ! 0) = Some ''2''
   \<and> fst (parse_auto_apply_args demo_collab demo_argspec [''1'', ''--x=2''] ''auto'' demo_world)
       = Inl (ParseError ''x specified both as positional argument (1) and keyword argument (2)'')
   \<and> isl (fst (parse_auto_apply_args demo_collab demo_argspec [''1'', ''--x=2''] ''auto'' demo_world))
   \<and> fst (scan_args demo_collab demo_argspec ''auto'' [] [] [] demo_world) = Inr ([], [])
   \<and> argname2default_of demo_argspec (args demo_argspec ! 0) = None
   \<and> fst (parse_auto_apply_args demo_collab demo_argspec [] ''auto'' demo_world)
       = Inl (ParseError ''missing required argument x'')"
proof -
  let ?A = "parse_auto_apply_args demo_collab demo_ymd_spec [''--day=16'', ''--month=7'', ''--year=2014'']
          ''auto'' demo_world"
  let ?S1 = "scan_args demo_collab demo_argspec ''auto'' [''1'', ''--x=2''] [] [] demo_world"
  let ?S2 = "scan_args demo_collab demo_argspec ''auto'' [] [] [] demo_world"
  have a: "fst ?A = Inr ([PyInt 2014, PyInt 7, PyInt 16], [])" by code_simp
  then have a': "?A = (Inr ([PyInt 2014, PyInt 7, PyInt 16], []), snd ?A)" by (metis prod.collapse)
  have s1: "fst ?S1 = Inr ([''1''], [(''x'', ''2'')])" by code_simp
  then have s1': "?S1 = (Inr ([''1''], [(''x'', ''2'')]), snd ?S1)" by (metis prod.collapse)
  have s2: "fst ?S2 = Inr ([], [])" by code_simp
  then have s2': "?S2 = (Inr ([], []), snd ?S2)" by (metis prod.collapse)
  have j: "(0::nat) < length (args demo_argspec)" "(0::nat) < length [''1'']"
      "map_of [(''x'', ''2'')] (args demo_argspec ! 0) = Some ''2''"
      "argname2default_of demo_argspec (args demo_argspec ! 0) = None"
      "args demo_argspec ! 0 = ''x''"
    by (simp_all add: demo_argspec_def argname2default_of_def defaults_or_empty_def)
  have b: "bind_declared demo_collab ''auto'' (argname2default_of demo_argspec) pos 0
             (take 0 (args demo_argspec)) kw [] w1 = (Inr ([], kw), w1)" for pos kw w1
    by (simp add: bind_declared.simps)
  note t1 = bind_args_binding [of demo_collab demo_ymd_spec _ "''auto''" demo_world
              "[PyInt 2014, PyInt 7, PyInt 16]" "[]" "snd ?A"]
  note t2 = bind_args_binding [of demo_collab demo_argspec "[''1'', ''--x=2'']" "''auto''" demo_world
              _ _ _ "[''1'']" "[(''x'', ''2'')]" "snd ?S1" 0 "[]" "[(''x'', ''2'')]" "snd ?S1" "''2''"]
  note t3 = bind_args_binding [of demo_collab demo_argspec "[]" "''auto''" demo_world
              _ _ _ "[]" "[]" "snd ?S2" 0 "[]" "[]" "snd ?S2"]
  from t1 a' have c1: "length (args demo_ymd_spec) \<le> length [PyInt 2014, PyInt 7, PyInt 16]"
    by blast
  from t2 s1' j b have c2:
    "parse_auto_apply_args demo_collab demo_argspec [''1'', ''--x=2''] ''auto'' demo_world
       = (Inl (ParseError (''x'' @ '' specified both as positional argument (''
                       @ [''1''] ! 0 @ '') and keyword argument ('' @ ''2'' @ '')'')), snd ?S1)"
    and c2': "isl (fst (parse_auto_apply_args demo_collab demo_argspec [''1'', ''--x=2''] ''auto'' demo_world))"
    by simp_all
  from t3 s2' j b have c3:
    "parse_auto_apply_args demo_collab demo_argspec [] ''auto'' demo_world
       = (Inl (ParseError (''missing required argument '' @ ''x'')), snd ?S2)"
    by simp
  show ?thesis
    using a c1 s1 j c2 c2' s2 c3 by simp
qed

end
